theory Spec2Isabelle
  imports Complex_Main
begin

section \<open>The demo script of the hand-built deep-learning framework\<close>

text \<open>
  The source is \<^verbatim>\<open>demo.py\<close>: functions that build models, train them and test
  them, by calls into the framework's own modules (\<^verbatim>\<open>Module\<close>, \<^verbatim>\<open>modules\<close>,
  \<^verbatim>\<open>optimizers\<close>, \<^verbatim>\<open>helpers\<close>) and into torch. Every such call is a parameter
  of the embedding (the record \<open>lib\<close> and the objects below); what the script itself
  does (the order of the calls, the loops, the histories, the prints, the gradient
  switch, the \<^verbatim>\<open>try\<close> blocks) is translated line by line.
\<close>

subsection \<open>Exceptions, the world, actions\<close>

text \<open>
  \<open>OtherError\<close> stands for every exception that is not an instance of
  \<^verbatim>\<open>AssertionError\<close> or \<^verbatim>\<open>IndexError\<close>; each carries its message.
\<close>

datatype error = AssertionError string | IndexError string | OtherError string

text \<open>
  What a call can change: the objects of the framework and of torch (\<open>heap\<close>), torch's
  global gradient mode (\<^verbatim>\<open>torch.set_grad_enabled\<close>) and the text printed so far, one
  entry per \<^verbatim>\<open>print\<close>.
\<close>

record 'h world =
  heap :: 'h
  grad_enabled :: bool
  stdout :: "string list"

text \<open>
  A statement or call runs in a world and leaves a world, with either the exception it
  raised or the value it returned: an exception does not undo what was done before it.
\<close>

type_synonym ('a, 'h) action = "'h world \<Rightarrow> (error + 'a) \<times> 'h world"

definition return :: "'a \<Rightarrow> ('a, 'h) action" where
  "return x = (\<lambda>w. (Inr x, w))"

definition raise :: "error \<Rightarrow> ('a, 'h) action" where
  "raise e = (\<lambda>w. (Inl e, w))"

text \<open>Sequencing: the rest runs only if the first part returned.\<close>

definition and_then :: "('a, 'h) action \<Rightarrow> ('a \<Rightarrow> ('b, 'h) action) \<Rightarrow> ('b, 'h) action" where
  "and_then m f = (\<lambda>w. case m w of (Inl e, w') \<Rightarrow> (Inl e, w') | (Inr x, w') \<Rightarrow> f x w')"

text \<open>A tensor expression: it may raise, and changes nothing.\<close>

definition lift :: "error + 'a \<Rightarrow> ('a, 'h) action" where
  "lift r = (\<lambda>w. (r, w))"

definition print :: "string \<Rightarrow> (unit, 'h) action" where
  "print s = (\<lambda>w. (Inr (), w\<lparr>stdout := stdout w @ [s]\<rparr>))"

definition set_grad_enabled :: "bool \<Rightarrow> (unit, 'h) action" where
  "set_grad_enabled b = (\<lambda>w. (Inr (), w\<lparr>grad_enabled := b\<rparr>))"

text \<open>
  \<^verbatim>\<open>try: body except AssertionError as error: handler(error)\<close>. The handler gets
  the message and runs in the world the body left; any other exception goes on.
\<close>

definition try_except_AssertionError ::
  "('a, 'h) action \<Rightarrow> (string \<Rightarrow> ('a, 'h) action) \<Rightarrow> ('a, 'h) action" where
  "try_except_AssertionError body handler =
     (\<lambda>w. case body w of
            (Inl (AssertionError msg), w') \<Rightarrow> handler msg w'
          | r \<Rightarrow> r)"

text \<open>
  \<^verbatim>\<open>for i in xs: body\<close>, where \<open>s\<close> holds the local variables that the body
  updates and that are read after the loop.
\<close>

fun for_loop :: "'i list \<Rightarrow> ('i \<Rightarrow> 's \<Rightarrow> ('s, 'h) action) \<Rightarrow> 's \<Rightarrow> ('s, 'h) action" where
  "for_loop [] body s = return s"
| "for_loop (i # is) body s = and_then (body i s) (for_loop is body)"

text \<open>\<^verbatim>\<open>range(n)\<close> of a Python integer: empty when \<open>n \<le> 0\<close>.\<close>

definition range_int :: "int \<Rightarrow> nat list" where
  "range_int n = [0..<nat n]"

subsection \<open>Objects and functions the script is given\<close>

text \<open>
  A model (the framework's or torch's): \<^verbatim>\<open>model(input)\<close>,
  \<^verbatim>\<open>model.backward(grad)\<close>, \<^verbatim>\<open>model.eval()\<close>, \<^verbatim>\<open>model.train()\<close>,
  \<^verbatim>\<open>model.parameters()\<close>, and the mode it is in (\<^verbatim>\<open>model.training\<close>).
\<close>

record ('v, 'h) module =
  call :: "'v \<Rightarrow> ('v, 'h) action"
  backward :: "'v option \<Rightarrow> (unit, 'h) action"
  eval :: "(unit, 'h) action"
  train :: "(unit, 'h) action"
  parameters :: "('v list, 'h) action"
  is_training :: "'h world \<Rightarrow> bool"

text \<open>A loss: \<^verbatim>\<open>criterion(output, target)\<close> and \<^verbatim>\<open>criterion.backward()\<close>.\<close>

record ('v, 'h) criterion =
  criterion_call :: "'v \<Rightarrow> 'v \<Rightarrow> ('v, 'h) action"
  criterion_backward :: "('v, 'h) action"

text \<open>
  An optimizer: \<^verbatim>\<open>zero_grad()\<close> and \<^verbatim>\<open>step\<close>, called with the loss on the
  framework's optimizer and with no argument on torch's.
\<close>

record ('v, 'h) optimizer =
  zero_grad :: "(unit, 'h) action"
  step :: "'v option \<Rightarrow> (unit, 'h) action"

text \<open>
  The names the script imports. Tensor expressions are functions that may raise:
  \<open>select_column j t\<close> is \<^verbatim>\<open>t[:,j]\<close>, \<open>view_column t\<close> is \<^verbatim>\<open>t.view(-1,1)\<close>,
  \<open>dim t\<close> is \<^verbatim>\<open>t.dim()\<close>, \<open>flatten t\<close> is \<^verbatim>\<open>t.flatten()\<close>,
  \<open>rounded_item t\<close> is the text that \<^verbatim>\<open>format\<close> prints for
  \<^verbatim>\<open>round(t.item(), 5)\<close>, \<open>ge_half_flatten t\<close> is
  \<^verbatim>\<open>torch.ge(t, 0.5).flatten()\<close> and \<open>accuracy p target input\<close> is
  \<^verbatim>\<open>torch.where(p == target.flatten().type(torch.ByteTensor), torch.Tensor([1]),
  torch.Tensor([0])).sum() / len(input)\<close>. \<open>tensor_backward t\<close> is torch's
  \<^verbatim>\<open>t.backward()\<close>. A layer is built with its name, or with \<open>None\<close> when the
  script gives none.
\<close>

record ('v, 'h) lib =
  load_data_p2 :: "('v \<times> 'v \<times> 'v \<times> 'v, 'h) action"
  select_column :: "nat \<Rightarrow> 'v \<Rightarrow> error + 'v"
  view_column :: "'v \<Rightarrow> error + 'v"
  dim :: "'v \<Rightarrow> error + nat"
  flatten :: "'v \<Rightarrow> error + 'v"
  rounded_item :: "'v \<Rightarrow> error + string"
  ge_half_flatten :: "'v \<Rightarrow> error + 'v"
  accuracy :: "'v \<Rightarrow> 'v \<Rightarrow> 'v \<Rightarrow> error + 'v"
  tensor_backward :: "'v \<Rightarrow> (unit, 'h) action"
  Linear :: "string \<Rightarrow> nat \<Rightarrow> nat \<Rightarrow> (('v, 'h) module, 'h) action"
  ReLU :: "string option \<Rightarrow> (('v, 'h) module, 'h) action"
  Tanh :: "string option \<Rightarrow> (('v, 'h) module, 'h) action"
  Sigmoid :: "string option \<Rightarrow> (('v, 'h) module, 'h) action"
  Sequential :: "('v, 'h) module list \<Rightarrow> (('v, 'h) module, 'h) action"
  BCELoss :: "(('v, 'h) criterion, 'h) action"
  SGD :: "('v, 'h) module \<Rightarrow> real \<Rightarrow> (('v, 'h) optimizer, 'h) action"
  torch_optim_SGD :: "'v list \<Rightarrow> real \<Rightarrow> (('v, 'h) optimizer, 'h) action"

subsection \<open>Tensors of at most two dimensions\<close>

text \<open>
  A scalar, a vector, or a matrix given by its number of columns and its rows (so that
  a matrix with no row still has a width). The loader's targets are of this kind.
\<close>

datatype 'a tensor = Scalar 'a | Vector "'a list" | Matrix nat "'a list list"

fun shape :: "'a tensor \<Rightarrow> nat list" where
  "shape (Scalar x) = []"
| "shape (Vector xs) = [length xs]"
| "shape (Matrix n rows) = [length rows, n]"

text \<open>
  \<^verbatim>\<open>t[:,j]\<close> for \<open>j \<ge> 0\<close>: torch raises \<^verbatim>\<open>IndexError\<close> when the tensor has
  fewer than two dimensions and when it has no column \<open>j\<close>.
\<close>

fun tensor_select_column :: "nat \<Rightarrow> 'a tensor \<Rightarrow> error + 'a tensor" where
  "tensor_select_column j (Scalar x) = Inl (IndexError ''too many indices for tensor of dimension 0'')"
| "tensor_select_column j (Vector xs) = Inl (IndexError ''too many indices for tensor of dimension 1'')"
| "tensor_select_column j (Matrix n rows) =
     (if j < n then Inr (Vector (map (\<lambda>row. row ! j) rows))
      else Inl (IndexError ''index out of bounds for dimension 1''))"

text \<open>\<^verbatim>\<open>t.view(-1,1)\<close>: all the elements, in order, one per row.\<close>

fun tensor_view_column :: "'a tensor \<Rightarrow> error + 'a tensor" where
  "tensor_view_column (Scalar x) = Inr (Matrix 1 [[x]])"
| "tensor_view_column (Vector xs) = Inr (Matrix 1 (map (\<lambda>x. [x]) xs))"
| "tensor_view_column (Matrix n rows) = Inr (Matrix 1 (map (\<lambda>x. [x]) (concat rows)))"

subsection \<open>Loading the data\<close>

definition load_mock_test_data :: "('v, 'h) lib \<Rightarrow> ('v \<times> 'v \<times> 'v \<times> 'v, 'h) action" where
  "load_mock_test_data L =
     and_then (load_data_p2 L) (\<lambda>(train_input, train_target, test_input, test_target).
     and_then (lift (select_column L 1 train_target)) (\<lambda>column.
     and_then (lift (view_column L column)) (\<lambda>train_target.
     and_then (lift (select_column L 1 test_target)) (\<lambda>column.
     and_then (lift (view_column L column)) (\<lambda>test_target.
     return (train_input, train_target, test_input, test_target))))))"

subsection \<open>Printing an epoch\<close>

text \<open>The decimal digits of a natural number, as \<^verbatim>\<open>format\<close> writes an epoch.\<close>

function show_nat :: "nat \<Rightarrow> string" where
  "show_nat n =
     (if n < 10 then [''0123456789'' ! n]
      else show_nat (n div 10) @ [''0123456789'' ! (n mod 10)])"
  by pat_completeness auto
termination
  by (relation "measure id") auto

text \<open>\<^verbatim>\<open>print("e = {}, loss = {}".format(e, round(loss.item(), 5)))\<close>\<close>

definition print_epoch :: "('v, 'h) lib \<Rightarrow> nat \<Rightarrow> 'v \<Rightarrow> (unit, 'h) action" where
  "print_epoch L e loss =
     and_then (lift (rounded_item L loss)) (\<lambda>r.
     print (''e = '' @ show_nat e @ '', loss = '' @ r))"

subsection \<open>Training the framework's model and torch's, side by side\<close>




subsection \<open>Testing a model\<close>

definition test_model_bce ::
  "('v, 'h) lib \<Rightarrow> ('v, 'h) module \<Rightarrow> 'v \<Rightarrow> 'v \<Rightarrow> ('v, 'h) action" where
  "test_model_bce L model test_input test_target =
     and_then (eval model) (\<lambda>_.
     and_then (call model test_input) (\<lambda>test_output.
     and_then (lift (ge_half_flatten L test_output)) (\<lambda>output_to_prediction.
     and_then (lift (accuracy L output_to_prediction test_target test_input)) (\<lambda>test_accuracy.
     and_then (train model) (\<lambda>_.
     return test_accuracy)))))"

definition test_model_bceWithLogits ::
  "('v, 'h) lib \<Rightarrow> ('v, 'h) module \<Rightarrow> 'v \<Rightarrow> 'v \<Rightarrow> ('v, 'h) action" where
  "test_model_bceWithLogits L model test_input test_target =
     and_then (eval model) (\<lambda>_.
     and_then (call model test_input) (\<lambda>test_output.
     and_then (Sigmoid L None) (\<lambda>sigmoid.
     and_then (call sigmoid test_output) (\<lambda>probabilities.
     and_then (lift (ge_half_flatten L probabilities)) (\<lambda>output_to_prediction.
     and_then (lift (accuracy L output_to_prediction test_target test_input)) (\<lambda>test_accuracy.
     and_then (train model) (\<lambda>_.
     return test_accuracy)))))))"

subsection \<open>Training with the histories\<close>

text \<open>
  Lines 121 to 133: one epoch. The three histories are the loop's local state, in the
  order in which the source creates them.
\<close>

definition train_and_test_epoch ::
  "('v, 'h) lib \<Rightarrow> ('v, 'h) module \<Rightarrow> ('v, 'h) criterion \<Rightarrow>
   (('v, 'h) module \<Rightarrow> 'v \<Rightarrow> 'v \<Rightarrow> ('v, 'h) action) \<Rightarrow> 'v \<times> 'v \<times> 'v \<times> 'v \<Rightarrow>
   ('v, 'h) optimizer \<Rightarrow> nat \<Rightarrow> 'v list \<times> 'v list \<times> 'v list \<Rightarrow>
   ('v list \<times> 'v list \<times> 'v list, 'h) action" where
  "train_and_test_epoch L model criterion test_model_fn data optimizer e histories =
     (case data of (input, target, test_input, test_target) \<Rightarrow>
      case histories of (loss_history, test_acc_history, train_acc_history) \<Rightarrow>
     and_then (zero_grad optimizer) (\<lambda>_.
     and_then (call model input) (\<lambda>output.
     and_then (criterion_call criterion output target) (\<lambda>loss.
     let loss_history = loss_history @ [loss] in
     and_then (test_model_fn model test_input test_target) (\<lambda>test_acc.
     let test_acc_history = test_acc_history @ [test_acc] in
     and_then (test_model_fn model input target) (\<lambda>train_acc.
     let train_acc_history = train_acc_history @ [train_acc] in
     and_then (criterion_backward criterion) (\<lambda>grad_output.
     and_then (lift (dim L grad_output)) (\<lambda>d.
     and_then (if d = 1 then lift (view_column L grad_output) else return grad_output) (\<lambda>grad_output.
     and_then (if e mod 50 = 0 then print_epoch L e loss else return ()) (\<lambda>_.
     and_then (backward model (Some grad_output)) (\<lambda>_.
     and_then (step optimizer (Some loss)) (\<lambda>_.
     return (loss_history, test_acc_history, train_acc_history)))))))))))))"

definition train_and_test_model ::
  "('v, 'h) lib \<Rightarrow> ('v, 'h) module \<Rightarrow> ('v, 'h) criterion \<Rightarrow>
   (('v, 'h) module \<Rightarrow> 'v \<Rightarrow> 'v \<Rightarrow> ('v, 'h) action) \<Rightarrow> 'v \<times> 'v \<times> 'v \<times> 'v \<Rightarrow>
   int \<Rightarrow> real \<Rightarrow> ('v list \<times> 'v list \<times> 'v list, 'h) action" where
  "train_and_test_model L model criterion test_model_fn data nb_epochs lr =
     and_then (set_grad_enabled False) (\<lambda>_.
     and_then (print ''\<newline>Working with custom DL'') (\<lambda>_.
     and_then (SGD L model lr) (\<lambda>optimizer.
     and_then (for_loop (range_int nb_epochs)
                 (train_and_test_epoch L model criterion test_model_fn data optimizer)
                 ([], [], [])) (\<lambda>(loss_history, test_acc_history, train_acc_history).
     return (loss_history, train_acc_history, test_acc_history)))))"

text \<open>Lines 147 to 157: one epoch of torch's model.\<close>

definition train_and_test_epoch_torch ::
  "('v, 'h) lib \<Rightarrow> ('v, 'h) module \<Rightarrow> ('v, 'h) criterion \<Rightarrow>
   (('v, 'h) module \<Rightarrow> 'v \<Rightarrow> 'v \<Rightarrow> ('v, 'h) action) \<Rightarrow> 'v \<times> 'v \<times> 'v \<times> 'v \<Rightarrow>
   ('v, 'h) optimizer \<Rightarrow> nat \<Rightarrow> 'v list \<times> 'v list \<times> 'v list \<Rightarrow>
   ('v list \<times> 'v list \<times> 'v list, 'h) action" where
  "train_and_test_epoch_torch L model criterion test_model_fn data optimizer e histories =
     (case data of (input, target, test_input, test_target) \<Rightarrow>
      case histories of (loss_history, test_acc_history, train_acc_history) \<Rightarrow>
     and_then (zero_grad optimizer) (\<lambda>_.
     and_then (call model input) (\<lambda>output.
     and_then (lift (flatten L output)) (\<lambda>flat.
     and_then (criterion_call criterion flat target) (\<lambda>loss.
     let loss_history = loss_history @ [loss] in
     and_then (test_model_fn model test_input test_target) (\<lambda>test_acc.
     let test_acc_history = test_acc_history @ [test_acc] in
     and_then (test_model_fn model input target) (\<lambda>train_acc.
     let train_acc_history = train_acc_history @ [train_acc] in
     and_then (if e mod 50 = 0 then print_epoch L e loss else return ()) (\<lambda>_.
     and_then (tensor_backward L loss) (\<lambda>_.
     and_then (step optimizer None) (\<lambda>_.
     return (loss_history, test_acc_history, train_acc_history)))))))))))"

definition train_and_test_model_torch ::
  "('v, 'h) lib \<Rightarrow> ('v, 'h) module \<Rightarrow> ('v, 'h) criterion \<Rightarrow>
   (('v, 'h) module \<Rightarrow> 'v \<Rightarrow> 'v \<Rightarrow> ('v, 'h) action) \<Rightarrow> 'v \<times> 'v \<times> 'v \<times> 'v \<Rightarrow>
   int \<Rightarrow> real \<Rightarrow> ('v list \<times> 'v list \<times> 'v list, 'h) action" where
  "train_and_test_model_torch L model criterion test_model_fn data nb_epochs lr =
     and_then (set_grad_enabled True) (\<lambda>_.
     and_then (print ''\<newline>Working with PyTorch'') (\<lambda>_.
     and_then (parameters model) (\<lambda>params.
     and_then (torch_optim_SGD L params lr) (\<lambda>optimizer.
     and_then (for_loop (range_int nb_epochs)
                 (train_and_test_epoch_torch L model criterion test_model_fn data optimizer)
                 ([], [], [])) (\<lambda>(loss_history, test_acc_history, train_acc_history).
     and_then (set_grad_enabled False) (\<lambda>_.
     return (loss_history, train_acc_history, test_acc_history)))))))"

subsection \<open>The three tests that expect an assertion error\<close>

definition rule_line :: string where
  "rule_line = ''\<newline>---------------------------------------------------------------------------''"

definition uncorrect :: string where
  "uncorrect = ''Uncorrect behavior, error should have been thrown.''"

text \<open>Lines 212 to 215: the model with two unnamed sigmoids.\<close>

definition two_unnamed_sigmoids :: "('v, 'h) lib \<Rightarrow> (('v, 'h) module, 'h) action" where
  "two_unnamed_sigmoids L =
     and_then (Linear L ''fc1'' 2 6) (\<lambda>fc1.
     and_then (ReLU L None) (\<lambda>relu.
     and_then (Linear L ''fc2'' 6 2) (\<lambda>fc2.
     and_then (Sigmoid L None) (\<lambda>sigmoid1.
     and_then (Linear L ''fc3'' 2 1) (\<lambda>fc3.
     and_then (Sigmoid L None) (\<lambda>sigmoid2.
     Sequential L [fc1, relu, fc2, sigmoid1, fc3, sigmoid2]))))))"

definition test_assertion_error_with_multiple_unnamed_sigmoid ::
  "('v, 'h) lib \<Rightarrow> (unit, 'h) action" where
  "test_assertion_error_with_multiple_unnamed_sigmoid L =
     and_then (print rule_line) (\<lambda>_.
     and_then (print ''Testing assertion error with multiple unnamed parameterless modules.'') (\<lambda>_.
     try_except_AssertionError
       (and_then (two_unnamed_sigmoids L) (\<lambda>model. print uncorrect))
       (\<lambda>error. print error)))"

definition test_assertion_error_when_calling_backward_first ::
  "('v, 'h) lib \<Rightarrow> (unit, 'h) action" where
  "test_assertion_error_when_calling_backward_first L =
     and_then (print rule_line) (\<lambda>_.
     and_then (print ''Testing assertion error when calling backward before any forward pass'') (\<lambda>_.
     and_then (Linear L ''fc1'' 2 3) (\<lambda>model.
     try_except_AssertionError
       (and_then (backward model None) (\<lambda>_. print uncorrect))
       (\<lambda>error. print error))))"

text \<open>Lines 256 to 261: what the third test builds before its \<^verbatim>\<open>try\<close>.\<close>

definition model_without_sigmoid :: "('v, 'h) lib \<Rightarrow> (('v, 'h) module, 'h) action" where
  "model_without_sigmoid L =
     and_then (Linear L ''fc1'' 2 6) (\<lambda>fc1.
     and_then (ReLU L None) (\<lambda>relu.
     and_then (Linear L ''fc2'' 6 4) (\<lambda>fc2.
     and_then (Tanh L None) (\<lambda>tanh.
     and_then (Linear L ''fc3'' 4 1) (\<lambda>fc3.
     Sequential L [fc1, relu, fc2, tanh, fc3])))))"

definition test_assertion_error_without_sigmoid_before_BCELoss ::
  "('v, 'h) lib \<Rightarrow> (unit, 'h) action" where
  "test_assertion_error_without_sigmoid_before_BCELoss L =
     and_then (print rule_line) (\<lambda>_.
     and_then (print ''Testing assertion error when using BCELoss without final sigmoid layer.'') (\<lambda>_.
     and_then (model_without_sigmoid L) (\<lambda>model.
     and_then (BCELoss L) (\<lambda>criterion.
     and_then (load_mock_test_data L) (\<lambda>data.
     try_except_AssertionError
       (and_then (train_and_test_model L model criterion (test_model_bce L) data 301 (1 / 1000))
          (\<lambda>_. print uncorrect))
       (\<lambda>error. print error))))))"

text \<open>
  What an epoch records (lines 121 to 128): the calls up to the third
  \<^verbatim>\<open>append\<close>, with the three values that the epoch appends.
\<close>

definition epoch_readings ::
  "('v, 'h) module \<Rightarrow> ('v, 'h) criterion \<Rightarrow>
   (('v, 'h) module \<Rightarrow> 'v \<Rightarrow> 'v \<Rightarrow> ('v, 'h) action) \<Rightarrow> 'v \<times> 'v \<times> 'v \<times> 'v \<Rightarrow>
   ('v, 'h) optimizer \<Rightarrow> ('v \<times> 'v \<times> 'v, 'h) action" where
  "epoch_readings model criterion test_model_fn data optimizer =
     (case data of (input, target, test_input, test_target) \<Rightarrow>
     and_then (zero_grad optimizer) (\<lambda>_.
     and_then (call model input) (\<lambda>output.
     and_then (criterion_call criterion output target) (\<lambda>loss.
     and_then (test_model_fn model test_input test_target) (\<lambda>test_acc.
     and_then (test_model_fn model input target) (\<lambda>train_acc.
     return (loss, test_acc, train_acc)))))))"

text \<open>The same for torch's model (lines 147 to 154).\<close>

definition epoch_readings_torch ::
  "('v, 'h) lib \<Rightarrow> ('v, 'h) module \<Rightarrow> ('v, 'h) criterion \<Rightarrow>
   (('v, 'h) module \<Rightarrow> 'v \<Rightarrow> 'v \<Rightarrow> ('v, 'h) action) \<Rightarrow> 'v \<times> 'v \<times> 'v \<times> 'v \<Rightarrow>
   ('v, 'h) optimizer \<Rightarrow> ('v \<times> 'v \<times> 'v, 'h) action" where
  "epoch_readings_torch L model criterion test_model_fn data optimizer =
     (case data of (input, target, test_input, test_target) \<Rightarrow>
     and_then (zero_grad optimizer) (\<lambda>_.
     and_then (call model input) (\<lambda>output.
     and_then (lift (flatten L output)) (\<lambda>flat.
     and_then (criterion_call criterion flat target) (\<lambda>loss.
     and_then (test_model_fn model test_input test_target) (\<lambda>test_acc.
     and_then (test_model_fn model input target) (\<lambda>train_acc.
     return (loss, test_acc, train_acc))))))))"

fun append_readings ::
  "'v list \<times> 'v list \<times> 'v list \<Rightarrow> 'v \<times> 'v \<times> 'v \<Rightarrow> 'v list \<times> 'v list \<times> 'v list" where
  "append_readings (loss_history, test_acc_history, train_acc_history) (loss, test_acc, train_acc) =
     (loss_history @ [loss], test_acc_history @ [test_acc], train_acc_history @ [train_acc])"

subsection \<open>A small library to run the script on\<close>

text \<open>
  One model, whose mode is a flag of the heap; a loss that reads the number of steps the
  optimizer has made; tensors of integers.
\<close>

record example_heap =
  training_flag :: bool
  steps :: nat

definition example_model :: "(int tensor, example_heap) module" where
  "example_model =
     \<lparr>call = (\<lambda>x. return x),
      backward = (\<lambda>g. return ()),
      eval = (\<lambda>w. (Inr (), w\<lparr>heap := (heap w)\<lparr>training_flag := False\<rparr>\<rparr>)),
      train = (\<lambda>w. (Inr (), w\<lparr>heap := (heap w)\<lparr>training_flag := True\<rparr>\<rparr>)),
      parameters = return [],
      is_training = (\<lambda>w. training_flag (heap w))\<rparr>"

definition example_criterion :: "(int tensor, example_heap) criterion" where
  "example_criterion =
     \<lparr>criterion_call = (\<lambda>output target w. (Inr (Scalar (int (steps (heap w)))), w)),
      criterion_backward = return (Vector [0])\<rparr>"

definition example_optimizer :: "(int tensor, example_heap) optimizer" where
  "example_optimizer =
     \<lparr>zero_grad = return (),
      step = (\<lambda>loss w. (Inr (), w\<lparr>heap := (heap w)\<lparr>steps := Suc (steps (heap w))\<rparr>\<rparr>))\<rparr>"

definition example_lib :: "(int tensor, example_heap) lib" where
  "example_lib =
     \<lparr>load_data_p2 = return (Matrix 2 [[0, 0], [1, 1]], Matrix 2 [[1, 0], [0, 1]],
                             Matrix 2 [[1, 0]], Matrix 2 [[0, 1]]),
      select_column = tensor_select_column,
      view_column = tensor_view_column,
      dim = (\<lambda>t. Inr (length (shape t))),
      flatten = (\<lambda>t. Inr t),
      rounded_item = (\<lambda>t. Inr ''0.0''),
      ge_half_flatten = (\<lambda>t. Inr t),
      accuracy = (\<lambda>p target input. Inr (Scalar 1)),
      tensor_backward = (\<lambda>t. return ()),
      Linear = (\<lambda>name n_in n_out. return example_model),
      ReLU = (\<lambda>name. return example_model),
      Tanh = (\<lambda>name. return example_model),
      Sigmoid = (\<lambda>name. return example_model),
      Sequential = (\<lambda>layers. return example_model),
      BCELoss = return example_criterion,
      SGD = (\<lambda>model lr. return example_optimizer),
      torch_optim_SGD = (\<lambda>params lr. return example_optimizer)\<rparr>"

definition example_world :: "example_heap world" where
  "example_world = \<lparr>heap = \<lparr>training_flag = True, steps = 0\<rparr>, grad_enabled = False, stdout = []\<rparr>"

text \<open>The same library with a loader whose targets have one column.\<close>

definition one_column_lib :: "(int tensor, example_heap) lib" where
  "one_column_lib =
     example_lib\<lparr>load_data_p2 :=
       return (Matrix 2 [[0, 0], [1, 1]], Matrix 1 [[1], [0]], Matrix 2 [[1, 0]], Matrix 1 [[0]])\<rparr>"

text \<open>The data that \<open>load_mock_test_data\<close> returns on this library.\<close>

definition example_data :: "int tensor \<times> int tensor \<times> int tensor \<times> int tensor" where
  "example_data = (Matrix 2 [[0, 0], [1, 1]], Matrix 1 [[0], [1]], Matrix 2 [[1, 0]], Matrix 1 [[1]])"

text \<open>Libraries in which a call fails: for the tests that expect an assertion error.\<close>

definition refusing_lib :: "(int tensor, example_heap) lib" where
  "refusing_lib =
     example_lib\<lparr>
       Linear := (\<lambda>name n_in n_out.
         return (example_model\<lparr>backward := (\<lambda>g. raise (AssertionError ''backward before forward''))\<rparr>)),
       Sequential := (\<lambda>layers. raise (AssertionError ''this model is refused''))\<rparr>"

definition broken_lib :: "(int tensor, example_heap) lib" where
  "broken_lib = example_lib\<lparr>Sequential := (\<lambda>layers. raise (OtherError ''out of memory''))\<rparr>"

definition strict_bce_lib :: "(int tensor, example_heap) lib" where
  "strict_bce_lib =
     example_lib\<lparr>BCELoss :=
       return (example_criterion\<lparr>criterion_call :=
         (\<lambda>output target. raise (AssertionError ''BCELoss needs a final Sigmoid''))\<rparr>)\<rparr>"


subsection \<open>The framework's modules, as the specification describes them\<close>

text \<open>
  The framework itself (\<^verbatim>\<open>Module.py\<close>, \<^verbatim>\<open>modules.py\<close>) is not among the
  sources. The script and the specification say this much of it: a model is a layer or
  a sequence of layers, each with a name when it is given one; a forward pass saves
  intermediate values for the backward pass; a model is in training or in evaluation
  mode; the backward pass asserts that a forward pass came first; \<^verbatim>\<open>BCELoss\<close>
  asserts that the model ends in a sigmoid. What the layers compute is a parameter.
\<close>

text \<open>
  Modelled from the spec: the classes \<^verbatim>\<open>Linear\<close>, \<^verbatim>\<open>ReLU\<close>, \<^verbatim>\<open>Tanh\<close>,
  \<^verbatim>\<open>Sigmoid\<close> and \<^verbatim>\<open>Sequential\<close> of \<^verbatim>\<open>modules.py\<close>, as the kind of a module.
\<close>

datatype kind = Linear_layer nat nat | ReLU_layer | Tanh_layer | Sigmoid_layer | Sequential_container

text \<open>
  Modelled from the spec: the class \<^verbatim>\<open>Module\<close> and its attributes \<^verbatim>\<open>name\<close>,
  \<^verbatim>\<open>training\<close>, \<^verbatim>\<open>save_for_backward\<close> and \<^verbatim>\<open>_children\<close>, which the script
  reads at lines 234 and 235. An unnamed layer has the name \<open>None\<close>.
\<close>

datatype 'v Module =
  Module (name: "string option") (kind: kind) (training: bool)
    (save_for_backward: "'v option") (children: "'v Module list")

text \<open>
  Modelled from the spec: a tensor of the framework together with the kind of the layer
  whose output it is (\<open>None\<close> for data). The specification says that \<^verbatim>\<open>BCELoss\<close>
  fails on a model whose final layer is not a sigmoid, and the script passes the loss
  only the output (line 123): the output carries what the loss asserts.
\<close>

datatype 'v traced = Traced (contents: 'v) (produced_by: "kind option")

text \<open>
  Modelled from the spec: the arithmetic of the framework, which the specification
  leaves out. \<open>layer_output\<close> is what a layer computes, \<open>intermediate\<close> what it keeps
  of its input for the backward pass, \<open>gradients\<close> the backward pass of a model whose
  forward pass has run, \<open>bce\<close> the value of the loss, and the two messages are those
  of the two assertions.
\<close>

record 'v numerics =
  layer_output :: "kind \<Rightarrow> 'v \<Rightarrow> error + 'v"
  intermediate :: "kind \<Rightarrow> 'v \<Rightarrow> 'v"
  gradients :: "'v Module \<Rightarrow> 'v option \<Rightarrow> (error + unit) \<times> 'v Module"
  bce :: "'v \<Rightarrow> 'v \<Rightarrow> error + 'v"
  backward_message :: string
  bce_message :: string

text \<open>
  Modelled from the spec: the constructors \<^verbatim>\<open>Linear(name, n_in, n_out)\<close>,
  \<^verbatim>\<open>ReLU()\<close>, \<^verbatim>\<open>Tanh()\<close>, \<^verbatim>\<open>Sigmoid()\<close> (with a name or without) and the
  model that \<^verbatim>\<open>Sequential(...)\<close> builds of the layers it accepts. A new module is in
  training mode and has saved nothing.
\<close>

definition new_Linear :: "string \<Rightarrow> nat \<Rightarrow> nat \<Rightarrow> 'v Module" where
  "new_Linear label n_in n_out = Module (Some label) (Linear_layer n_in n_out) True None []"

definition new_activation :: "kind \<Rightarrow> string option \<Rightarrow> 'v Module" where
  "new_activation k label = Module label k True None []"

definition new_Sequential :: "'v Module list \<Rightarrow> 'v Module" where
  "new_Sequential layers = Module None Sequential_container True None layers"

text \<open>
  Modelled from the spec: \<^verbatim>\<open>Module.eval()\<close> and \<^verbatim>\<open>Module.train()\<close>, which put
  the model and every module in it in evaluation mode and in training mode.
\<close>

fun Module_eval :: "'v Module \<Rightarrow> 'v Module" where
  "Module_eval (Module n k t s cs) = Module n k False s (map Module_eval cs)"

fun Module_train :: "'v Module \<Rightarrow> 'v Module" where
  "Module_train (Module n k t s cs) = Module n k True s (map Module_train cs)"

text \<open>
  Modelled from the spec: \<^verbatim>\<open>Module.forward\<close>. A layer computes its output; a
  sequence passes the input through its layers in order. A module in training mode
  saves the intermediate values; in evaluation mode it saves nothing
  (``forward-pass intermediate state must remain unchanged after an evaluation-mode
  forward pass''). An exception in a layer ends the pass and leaves what the layers
  before it saved.
\<close>

fun Module_forward :: "'v numerics \<Rightarrow> 'v Module \<Rightarrow> 'v traced \<Rightarrow> (error + 'v traced) \<times> 'v Module"
  and forward_children ::
    "'v numerics \<Rightarrow> 'v Module list \<Rightarrow> 'v traced \<Rightarrow> (error + 'v traced) \<times> 'v Module list" where
  "Module_forward nm (Module n k t s cs) x =
     (if k = Sequential_container then
        (case forward_children nm cs x of
           (Inl e, cs') \<Rightarrow> (Inl e, Module n k t s cs')
         | (Inr y, cs') \<Rightarrow>
             (Inr y, Module n k t (if t then Some (intermediate nm k (contents x)) else s) cs'))
      else
        (case layer_output nm k (contents x) of
           Inl e \<Rightarrow> (Inl e, Module n k t s cs)
         | Inr y \<Rightarrow>
             (Inr (Traced y (Some k)),
              Module n k t (if t then Some (intermediate nm k (contents x)) else s) cs)))"
| "forward_children nm [] x = (Inr x, [])"
| "forward_children nm (c # cs) x =
     (case Module_forward nm c x of
        (Inl e, c') \<Rightarrow> (Inl e, c' # cs)
      | (Inr y, c') \<Rightarrow> (case forward_children nm cs y of (r, cs') \<Rightarrow> (r, c' # cs')))"

text \<open>
  Modelled from the spec: \<^verbatim>\<open>Module.backward\<close>. ``Calling backward on a model that
  has not yet performed a forward call must fail with an assertion error''; after a
  forward pass it computes the gradients.
\<close>

definition Module_backward :: "'v numerics \<Rightarrow> 'v Module \<Rightarrow> 'v option \<Rightarrow> (error + unit) \<times> 'v Module" where
  "Module_backward nm m grad_output =
     (case save_for_backward m of
        None \<Rightarrow> (Inl (AssertionError (backward_message nm)), m)
      | Some saved \<Rightarrow> gradients nm m grad_output)"

text \<open>
  Modelled from the spec: \<^verbatim>\<open>BCELoss\<close> called on an output and a target. ``Using
  BCELoss with a model whose final layer is not a Sigmoid must fail with an assertion
  error.''
\<close>

definition BCELoss_call :: "'v numerics \<Rightarrow> 'v traced \<Rightarrow> 'v traced \<Rightarrow> error + 'v traced" where
  "BCELoss_call nm output target =
     (if produced_by output = Some Sigmoid_layer then
        (case bce nm (contents output) (contents target) of
           Inl e \<Rightarrow> Inl e
         | Inr loss \<Rightarrow> Inr (Traced loss None))
      else Inl (AssertionError (bce_message nm)))"

text \<open>The modules of a model: the model itself and, in order, the modules of its children.\<close>

fun modules_of :: "'v Module \<Rightarrow> 'v Module list" where
  "modules_of (Module n k t s cs) = Module n k t s cs # concat (map modules_of cs)"

text \<open>The layers of a model in the order in which an input passes through them.\<close>

fun layers_of :: "'v Module \<Rightarrow> 'v Module list" where
  "layers_of (Module n k t s cs) =
     (if k = Sequential_container then concat (map layers_of cs) else [Module n k t s cs])"

text \<open>
  The kind of layer that produced a tensor after it has passed through \<open>ls\<close>, when
  \<open>p\<close> produced it before.
\<close>

definition kind_after :: "kind option \<Rightarrow> 'v Module list \<Rightarrow> kind option" where
  "kind_after p ls = (case ls of [] \<Rightarrow> p | l # ls' \<Rightarrow> Some (kind (last (l # ls'))))"

definition final_kind :: "'v Module \<Rightarrow> kind option" where
  "final_kind m = kind_after None (layers_of m)"

text \<open>
  A model on which no forward pass has run: one that was just built, or such a model
  after \<^verbatim>\<open>eval()\<close> or \<^verbatim>\<open>train()\<close>.
\<close>

inductive never_forwarded :: "'v Module \<Rightarrow> bool" where
  Linear: "never_forwarded (new_Linear label n_in n_out)"
| activation: "never_forwarded (new_activation k label)"
| Sequential: "never_forwarded (new_Sequential layers)"
| eval: "never_forwarded m \<Longrightarrow> never_forwarded (Module_eval m)"
| train: "never_forwarded m \<Longrightarrow> never_forwarded (Module_train m)"

code_pred never_forwarded .

text \<open>
  Modelled from the spec: the framework's model and its \<^verbatim>\<open>BCELoss\<close> as the objects
  the script calls. The heap is the model; the backward pass of the loss is a parameter.
\<close>

definition Module_object :: "'v numerics \<Rightarrow> ('v traced, 'v Module) module" where
  "Module_object nm =
     \<lparr>call = (\<lambda>x w. case Module_forward nm (heap w) x of (r, m) \<Rightarrow> (r, w\<lparr>heap := m\<rparr>)),
      backward = (\<lambda>grad_output w.
        case Module_backward nm (heap w) (map_option contents grad_output) of
          (r, m) \<Rightarrow> (r, w\<lparr>heap := m\<rparr>)),
      eval = (\<lambda>w. (Inr (), w\<lparr>heap := Module_eval (heap w)\<rparr>)),
      train = (\<lambda>w. (Inr (), w\<lparr>heap := Module_train (heap w)\<rparr>)),
      parameters = return [],
      is_training = (\<lambda>w. training (heap w))\<rparr>"

definition BCELoss_object ::
  "'v numerics \<Rightarrow> ('v traced, 'v Module) action \<Rightarrow> ('v traced, 'v Module) criterion" where
  "BCELoss_object nm criterion_backward_action =
     \<lparr>criterion_call = (\<lambda>output target. lift (BCELoss_call nm output target)),
      criterion_backward = criterion_backward_action\<rparr>"

subsection \<open>The framework's modules on tensors of integers\<close>

text \<open>Layers that return their input, with the two messages written out.\<close>

definition example_numerics :: "int tensor numerics" where
  "example_numerics =
     \<lparr>layer_output = (\<lambda>k x. Inr x),
      intermediate = (\<lambda>k x. x),
      gradients = (\<lambda>m grad_output. (Inr (), m)),
      bce = (\<lambda>output target. Inr (Scalar 0)),
      backward_message = ''backward called before forward'',
      bce_message = ''BCELoss expects the output of a Sigmoid''\<rparr>"

text \<open>The model of lines 225 to 227 and the model of lines 256 to 259.\<close>

definition tanh_model :: "'v Module" where
  "tanh_model =
     new_Sequential [new_Linear ''fc1'' 2 3, new_activation Tanh_layer None, new_Linear ''fc2'' 3 1]"

definition model_without_sigmoid_built :: "'v Module" where
  "model_without_sigmoid_built =
     new_Sequential [new_Linear ''fc1'' 2 6, new_activation ReLU_layer None,
                     new_Linear ''fc2'' 6 4, new_activation Tanh_layer None,
                     new_Linear ''fc3'' 4 1]"

text \<open>
  A library for a heap that holds one model of the framework: every constructor
  returns the object of that model, and the optimizer changes nothing.
\<close>

definition framework_lib :: "(int tensor traced, int tensor Module) lib" where
  "framework_lib =
     \<lparr>load_data_p2 = return (Traced (Matrix 2 [[0, 0], [1, 1]]) None, Traced (Matrix 2 [[1, 0], [0, 1]]) None,
                             Traced (Matrix 2 [[1, 0]]) None, Traced (Matrix 2 [[0, 1]]) None),
      select_column = (\<lambda>j t. case tensor_select_column j (contents t) of
                                 Inl e \<Rightarrow> Inl e | Inr c \<Rightarrow> Inr (Traced c None)),
      view_column = (\<lambda>t. case tensor_view_column (contents t) of
                            Inl e \<Rightarrow> Inl e | Inr c \<Rightarrow> Inr (Traced c None)),
      dim = (\<lambda>t. Inr (length (shape (contents t)))),
      flatten = (\<lambda>t. Inr t),
      rounded_item = (\<lambda>t. Inr ''0.0''),
      ge_half_flatten = (\<lambda>t. Inr t),
      accuracy = (\<lambda>p target input. Inr (Traced (Scalar 1) None)),
      tensor_backward = (\<lambda>t. return ()),
      Linear = (\<lambda>label n_in n_out. return (Module_object example_numerics)),
      ReLU = (\<lambda>label. return (Module_object example_numerics)),
      Tanh = (\<lambda>label. return (Module_object example_numerics)),
      Sigmoid = (\<lambda>label. return (Module_object example_numerics)),
      Sequential = (\<lambda>layers. return (Module_object example_numerics)),
      BCELoss = return (BCELoss_object example_numerics (return (Traced (Vector [0]) None))),
      SGD = (\<lambda>model lr. return \<lparr>zero_grad = return (), step = (\<lambda>loss. return ())\<rparr>),
      torch_optim_SGD = (\<lambda>params lr. return \<lparr>zero_grad = return (), step = (\<lambda>loss. return ())\<rparr>)\<rparr>"

section \<open>Properties\<close>

subsection \<open>Running actions\<close>

lemma and_then_Inr:
  "and_then m f w = (Inr y, w') \<longleftrightarrow> (\<exists>x w1. m w = (Inr x, w1) \<and> f x w1 = (Inr y, w'))"
  by (auto simp: and_then_def split: prod.splits sum.splits)

lemma and_then_InrE:
  assumes "and_then m f w = (Inr y, w')"
  obtains x w1 where "m w = (Inr x, w1)" and "f x w1 = (Inr y, w')"
  using assms by (auto simp: and_then_Inr)

lemma and_then_step: "m w = (Inr x, w1) \<Longrightarrow> and_then m f w = f x w1"
  by (simp add: and_then_def)

lemma and_then_fail: "m w = (Inl e, w1) \<Longrightarrow> and_then m f w = (Inl e, w1)"
  by (simp add: and_then_def)

lemma and_then_return: "and_then (return x) f = f x"
  by (simp add: and_then_def return_def)

lemma and_then_lift_Inr: "and_then (lift (Inr x)) f = f x"
  by (simp add: and_then_def lift_def)

lemma and_then_lift_Inl: "and_then (lift (Inl e)) f = raise e"
  by (simp add: and_then_def lift_def raise_def)

lemma and_then_print: "and_then (print s) f w = f () (w\<lparr>stdout := stdout w @ [s]\<rparr>)"
  by (simp add: and_then_def print_def)

lemma and_then_set_grad_enabled:
  "and_then (set_grad_enabled b) f w = f () (w\<lparr>grad_enabled := b\<rparr>)"
  by (simp add: and_then_def set_grad_enabled_def)

lemma and_then_assoc: "and_then (and_then m f) g = and_then m (\<lambda>x. and_then (f x) g)"
  by (auto simp: and_then_def fun_eq_iff split: prod.splits sum.splits)

lemma return_Inr: "return x w = (Inr y, w') \<longleftrightarrow> y = x \<and> w' = w"
  by (auto simp: return_def)

subsection \<open>The columns that \<open>load_mock_test_data\<close> returns\<close>

text \<open>
  C10, as amended. When the loader returns and each of its two targets is a matrix with
  at least two columns, \<open>load_mock_test_data\<close> returns the loader's two inputs as they
  are, and for each target its column 1 as a matrix of one column: row \<open>i\<close> of the
  result is the single entry \<open>row i ! 1\<close> of the loader's target, so the shape is
  \<open>(N, 1)\<close> whatever the width (at least two) of the loader's target. When one of the
  targets has fewer than two columns, the function raises \<^verbatim>\<open>IndexError\<close>.
\<close>

theorem load_mock_test_data_columns:
  assumes "select_column L = tensor_select_column" and "view_column L = tensor_view_column"
    and "load_data_p2 L w = (Inr (train_input, Matrix m train_rows, test_input, Matrix n test_rows), w')"
  shows "(1 < m \<and> 1 < n \<longrightarrow>
           load_mock_test_data L w =
             (Inr (train_input, Matrix 1 (map (\<lambda>row. [row ! 1]) train_rows),
                   test_input, Matrix 1 (map (\<lambda>row. [row ! 1]) test_rows)), w')
           \<and> shape (Matrix 1 (map (\<lambda>row. [row ! 1]) train_rows)) = [length train_rows, 1]
           \<and> shape (Matrix 1 (map (\<lambda>row. [row ! 1]) test_rows)) = [length test_rows, 1])
         \<and> (m \<le> 1 \<or> n \<le> 1 \<longrightarrow>
           load_mock_test_data L w = (Inl (IndexError ''index out of bounds for dimension 1''), w'))"
  using assms
  by (auto simp: load_mock_test_data_def and_then_def lift_def return_def comp_def)

theorem load_mock_test_data_columns_witness:
  "load_mock_test_data example_lib example_world =
     (Inr (Matrix 2 [[0, 0], [1, 1]], Matrix 1 [[0], [1]], Matrix 2 [[1, 0]], Matrix 1 [[1]]),
      example_world)"
  using load_mock_test_data_columns [of example_lib example_world
      "Matrix 2 [[0, 0], [1, 1]]" 2 "[[1, 0], [0, 1]]" "Matrix 2 [[1, 0]]" 2 "[[0, 1]]" example_world]
  by (simp add: example_lib_def example_world_def return_def)

text \<open>
  The claim as stated (a result for every width of the loader's targets) fails for
  targets of one column: \<^verbatim>\<open>train_target[:,1]\<close> raises \<^verbatim>\<open>IndexError\<close> and nothing is
  returned.
\<close>

theorem load_mock_test_data_one_column:
  "load_mock_test_data one_column_lib example_world =
     (Inl (IndexError ''index out of bounds for dimension 1''), example_world)"
  by (simp add: load_mock_test_data_def one_column_lib_def example_lib_def and_then_def
      return_def lift_def)

subsection \<open>Loops\<close>

lemma for_loop_append:
  "for_loop (xs @ ys) body s = and_then (for_loop xs body s) (for_loop ys body)"
proof (induction xs arbitrary: s)
  case Nil
  show ?case by (simp add: and_then_return)
next
  case (Cons x xs)
  have "for_loop (xs @ ys) body = (\<lambda>t. and_then (for_loop xs body t) (for_loop ys body))"
    by (rule ext) (rule Cons.IH)
  then show ?case by (simp add: and_then_assoc)
qed

lemma for_loop_snoc_Inr:
  "for_loop (xs @ [x]) body s w = (Inr s', w') \<longleftrightarrow>
     (\<exists>s1 w1. for_loop xs body s w = (Inr s1, w1) \<and> body x s1 w1 = (Inr s', w'))"
proof -
  have "and_then (body x s1) (for_loop [] body) = body x s1" for s1
    by (auto simp: and_then_def return_def fun_eq_iff split: prod.splits sum.splits)
  then show ?thesis
    by (simp add: for_loop_append and_then_Inr)
qed

text \<open>A loop whose body takes a reading and appends it to the state.\<close>

lemma for_loop_readings:
  assumes body: "\<And>i s w s' w'. body i s w = (Inr s', w') \<Longrightarrow>
                   \<exists>r w1. readings w = (Inr r, w1) \<and> s' = app s r"
    and run: "for_loop xs body s w = (Inr s', w')"
  shows "\<exists>rs. length rs = length xs \<and> s' = foldl app s rs \<and>
           (\<forall>k<length xs. \<exists>wk. for_loop (take k xs) body s w = (Inr (foldl app s (take k rs)), wk)
                 \<and> fst (readings wk) = Inr (rs ! k))"
  using run
proof (induction xs arbitrary: s' w' rule: rev_induct)
  case Nil
  then show ?case by (simp add: return_Inr)
next
  case (snoc x xs)
  from snoc.prems obtain s1 w1
    where first: "for_loop xs body s w = (Inr s1, w1)" and last: "body x s1 w1 = (Inr s', w')"
    by (auto simp: for_loop_snoc_Inr)
  from snoc.IH [OF first] obtain rs
    where len: "length rs = length xs" and s1: "s1 = foldl app s rs"
      and pre: "\<forall>k<length xs. \<exists>wk. for_loop (take k xs) body s w = (Inr (foldl app s (take k rs)), wk)
                 \<and> fst (readings wk) = Inr (rs ! k)"
    by blast
  from body [OF last] obtain r w2 where r: "readings w1 = (Inr r, w2)" and s': "s' = app s1 r"
    by blast
  have "\<exists>wk. for_loop (take k (xs @ [x])) body s w = (Inr (foldl app s (take k (rs @ [r]))), wk)
            \<and> fst (readings wk) = Inr ((rs @ [r]) ! k)" if "k < length (xs @ [x])" for k
  proof (cases "k < length xs")
    case True
    with pre len show ?thesis by (simp add: nth_append)
  next
    case False
    with that have "k = length xs" by simp
    with first r s1 len show ?thesis by (auto simp: nth_append)
  qed
  with len s1 s' show ?case
    by (intro exI [of _ "rs @ [r]"]) simp
qed


subsection \<open>The histories of \<open>train_and_test_model\<close>\<close>

lemma train_and_test_epoch_appends:
  assumes "train_and_test_epoch L model criterion test_model_fn data optimizer e histories w
             = (Inr histories', w')"
  shows "\<exists>r w1. epoch_readings model criterion test_model_fn data optimizer w = (Inr r, w1)
           \<and> histories' = append_readings histories r"
proof -
  obtain input target test_input test_target where data: "data = (input, target, test_input, test_target)"
    by (cases data) auto
  obtain lh teh trh where h: "histories = (lh, teh, trh)"
    by (cases histories) auto
  from assms show ?thesis
    unfolding train_and_test_epoch_def epoch_readings_def data h
    apply (simp add: Let_def)
    apply (elim and_then_InrE)
    apply (simp add: and_then_step return_def)
    done
qed

lemma train_and_test_epoch_torch_appends:
  assumes "train_and_test_epoch_torch L model criterion test_model_fn data optimizer e histories w
             = (Inr histories', w')"
  shows "\<exists>r w1. epoch_readings_torch L model criterion test_model_fn data optimizer w = (Inr r, w1)
           \<and> histories' = append_readings histories r"
proof -
  obtain input target test_input test_target where data: "data = (input, target, test_input, test_target)"
    by (cases data) auto
  obtain lh teh trh where h: "histories = (lh, teh, trh)"
    by (cases histories) auto
  from assms show ?thesis
    unfolding train_and_test_epoch_torch_def epoch_readings_torch_def data h
    apply (simp add: Let_def)
    apply (elim and_then_InrE)
    apply (simp add: and_then_step return_def)
    done
qed

lemma foldl_append_readings:
  "foldl append_readings (lh, teh, trh) rs =
     (lh @ map fst rs, teh @ map (\<lambda>r. fst (snd r)) rs, trh @ map (\<lambda>r. snd (snd r)) rs)"
  by (induction rs arbitrary: lh teh trh) auto


lemma loop_histories:
  assumes body: "\<And>i s w s' w'. body i s w = (Inr s', w') \<Longrightarrow>
                   \<exists>r w1. readings w = (Inr r, w1) \<and> s' = append_readings s r"
    and run: "for_loop [0..<n] body ([], [], []) w = (Inr (lh, teh, trh), w')"
  shows "length lh = n \<and> length teh = n \<and> length trh = n \<and>
         (\<forall>e<n. \<exists>we. for_loop [0..<e] body ([], [], []) w
                         = (Inr (take e lh, take e teh, take e trh), we)
                   \<and> fst (readings we) = Inr (lh ! e, teh ! e, trh ! e))"
proof -
  have "\<exists>rs. length rs = length [0..<n] \<and> (lh, teh, trh) = foldl append_readings ([], [], []) rs \<and>
          (\<forall>k<length [0..<n]. \<exists>wk. for_loop (take k [0..<n]) body ([], [], []) w
                         = (Inr (foldl append_readings ([], [], []) (take k rs)), wk)
                   \<and> fst (readings wk) = Inr (rs ! k))"
    by (rule for_loop_readings [where readings = readings and app = append_readings, OF _ run])
      (rule body)
  then obtain rs where len: "length rs = n"
    and all: "(lh, teh, trh) = foldl append_readings ([], [], []) rs"
    and pre: "\<forall>k<n. \<exists>wk. for_loop (take k [0..<n]) body ([], [], []) w
                         = (Inr (foldl append_readings ([], [], []) (take k rs)), wk)
                   \<and> fst (readings wk) = Inr (rs ! k)"
    by auto
  from all have lh: "lh = map fst rs" and teh: "teh = map (\<lambda>r. fst (snd r)) rs"
    and trh: "trh = map (\<lambda>r. snd (snd r)) rs"
    by (simp_all add: foldl_append_readings)
  have "\<exists>we. for_loop [0..<e] body ([], [], []) w = (Inr (take e lh, take e teh, take e trh), we)
             \<and> fst (readings we) = Inr (lh ! e, teh ! e, trh ! e)" if "e < n" for e
  proof -
    from pre that obtain wk
      where 1: "for_loop (take e [0..<n]) body ([], [], []) w
                  = (Inr (foldl append_readings ([], [], []) (take e rs)), wk)"
        and 2: "fst (readings wk) = Inr (rs ! e)"
      by blast
    from that have "take e [0..<n] = [0..<e]" by simp
    with 1 have "for_loop [0..<e] body ([], [], []) w
                   = (Inr (take e lh, take e teh, take e trh), wk)"
      by (simp add: foldl_append_readings lh teh trh take_map)
    moreover from 2 that len have "fst (readings wk) = Inr (lh ! e, teh ! e, trh ! e)"
      by (simp add: lh teh trh)
    ultimately show ?thesis by blast
  qed
  with len show ?thesis by (simp add: lh teh trh)
qed

text \<open>
  C6. When \<open>train_and_test_model\<close> returns, for a number of epochs that is not
  negative, each of the three histories it returns has exactly \<open>nb_epochs\<close> elements,
  one per epoch in the order of the epochs: the first \<open>e\<close> epochs, run from the world
  in which the optimizer was built, leave the first \<open>e\<close> elements of each history, and
  element \<open>e\<close> of the loss, test accuracy and train accuracy histories is what epoch
  \<open>e\<close> reads in the world they leave: the value of \<^verbatim>\<open>criterion(output, target)\<close>
  and of the two calls of \<^verbatim>\<open>test_model_fn\<close>.
\<close>

theorem train_and_test_model_histories:
  assumes "0 \<le> nb_epochs"
  shows "(\<forall>loss_history train_acc_history test_acc_history w'.
           train_and_test_model L model criterion test_model_fn data nb_epochs lr w
             = (Inr (loss_history, train_acc_history, test_acc_history), w') \<longrightarrow>
           int (length loss_history) = nb_epochs \<and> int (length train_acc_history) = nb_epochs \<and>
           int (length test_acc_history) = nb_epochs \<and>
           (\<exists>optimizer w0.
              SGD L model lr (w\<lparr>grad_enabled := False, stdout := stdout w @ [''\<newline>Working with custom DL'']\<rparr>)
                = (Inr optimizer, w0) \<and>
              (\<forall>e<nat nb_epochs. \<exists>we.
                 for_loop [0..<e] (train_and_test_epoch L model criterion test_model_fn data optimizer)
                    ([], [], []) w0
                   = (Inr (take e loss_history, take e test_acc_history, take e train_acc_history), we) \<and>
                 fst (epoch_readings model criterion test_model_fn data optimizer we)
                   = Inr (loss_history ! e, test_acc_history ! e, train_acc_history ! e))))"
proof (intro allI impI)
  fix lh trh teh w'
  assume run: "train_and_test_model L model criterion test_model_fn data nb_epochs lr w
                 = (Inr (lh, trh, teh), w')"
  let ?w = "w\<lparr>grad_enabled := False, stdout := stdout w @ [''\<newline>Working with custom DL'']\<rparr>"
  from run obtain optimizer w0
    where sgd: "SGD L model lr ?w = (Inr optimizer, w0)"
      and loop: "for_loop [0..<nat nb_epochs]
                   (train_and_test_epoch L model criterion test_model_fn data optimizer)
                   ([], [], []) w0 = (Inr (lh, teh, trh), w')"
    unfolding train_and_test_model_def range_int_def
    by (auto simp: and_then_set_grad_enabled and_then_print and_then_Inr return_Inr
        split: prod.splits)
  have "length lh = nat nb_epochs \<and> length teh = nat nb_epochs \<and> length trh = nat nb_epochs \<and>
        (\<forall>e<nat nb_epochs. \<exists>we.
            for_loop [0..<e] (train_and_test_epoch L model criterion test_model_fn data optimizer)
              ([], [], []) w0 = (Inr (take e lh, take e teh, take e trh), we) \<and>
            fst (epoch_readings model criterion test_model_fn data optimizer we)
              = Inr (lh ! e, teh ! e, trh ! e))"
    by (rule loop_histories
        [where readings = "epoch_readings model criterion test_model_fn data optimizer", OF _ loop])
      (rule train_and_test_epoch_appends)
  with sgd assms
  show "int (length lh) = nb_epochs \<and> int (length trh) = nb_epochs \<and> int (length teh) = nb_epochs \<and>
        (\<exists>optimizer w0. SGD L model lr ?w = (Inr optimizer, w0) \<and>
           (\<forall>e<nat nb_epochs. \<exists>we.
              for_loop [0..<e] (train_and_test_epoch L model criterion test_model_fn data optimizer)
                ([], [], []) w0 = (Inr (take e lh, take e teh, take e trh), we) \<and>
              fst (epoch_readings model criterion test_model_fn data optimizer we)
                = Inr (lh ! e, teh ! e, trh ! e)))"
    by auto
qed


lemma example_run:
  "train_and_test_model example_lib example_model example_criterion (test_model_bce example_lib)
       example_data 2 (1 / 100) example_world =
     (Inr ([Scalar 0, Scalar 1], [Scalar 1, Scalar 1], [Scalar 1, Scalar 1]),
      \<lparr>heap = \<lparr>training_flag = True, steps = 2\<rparr>, grad_enabled = False,
       stdout = [''\<newline>Working with custom DL'', ''e = 0, loss = 0.0'']\<rparr>)"
  by (simp add: train_and_test_model_def train_and_test_epoch_def test_model_bce_def
      print_epoch_def example_data_def example_lib_def example_model_def example_criterion_def
      example_optimizer_def example_world_def range_int_def upt_rec
      and_then_def return_def lift_def print_def set_grad_enabled_def Let_def)


theorem train_and_test_model_histories_witness:
  "train_and_test_model example_lib example_model example_criterion (test_model_bce example_lib)
       example_data 2 (1 / 100) example_world =
     (Inr ([Scalar 0, Scalar 1], [Scalar 1, Scalar 1], [Scalar 1, Scalar 1]),
      \<lparr>heap = \<lparr>training_flag = True, steps = 2\<rparr>, grad_enabled = False,
       stdout = [''\<newline>Working with custom DL'', ''e = 0, loss = 0.0'']\<rparr>)
   \<and> int (length [Scalar 0, Scalar (1::int)]) = 2
   \<and> (\<exists>optimizer w0 we.
         SGD example_lib example_model (1 / 100)
           (example_world\<lparr>grad_enabled := False,
              stdout := stdout example_world @ [''\<newline>Working with custom DL'']\<rparr>)
           = (Inr optimizer, w0) \<and>
         for_loop [0..<1]
            (train_and_test_epoch example_lib example_model example_criterion
               (test_model_bce example_lib) example_data optimizer) ([], [], []) w0
           = (Inr ([Scalar 0], [Scalar 1], [Scalar 1]), we) \<and>
         fst (epoch_readings example_model example_criterion (test_model_bce example_lib)
                example_data optimizer we)
           = Inr (Scalar 1, Scalar 1, Scalar 1))"
proof -
  have nonneg: "(0::int) \<le> 2" by simp
  from train_and_test_model_histories [OF nonneg, rule_format, OF example_run]
  obtain optimizer w0
    where sgd: "SGD example_lib example_model (1 / 100)
           (example_world\<lparr>grad_enabled := False,
              stdout := stdout example_world @ [''\<newline>Working with custom DL'']\<rparr>)
           = (Inr optimizer, w0)"
      and each: "\<forall>e<nat 2. \<exists>we.
         for_loop [0..<e]
            (train_and_test_epoch example_lib example_model example_criterion
               (test_model_bce example_lib) example_data optimizer) ([], [], []) w0
           = (Inr (take e [Scalar 0, Scalar 1], take e [Scalar 1, Scalar 1], take e [Scalar 1, Scalar 1]), we) \<and>
         fst (epoch_readings example_model example_criterion (test_model_bce example_lib)
                example_data optimizer we)
           = Inr ([Scalar 0, Scalar 1] ! e, [Scalar 1, Scalar 1] ! e, [Scalar 1, Scalar 1] ! e)"
    by blast
  from each [rule_format, of 1] obtain we
    where "for_loop [0..<1]
            (train_and_test_epoch example_lib example_model example_criterion
               (test_model_bce example_lib) example_data optimizer) ([], [], []) w0
           = (Inr ([Scalar 0], [Scalar 1], [Scalar 1]), we)"
      and "fst (epoch_readings example_model example_criterion (test_model_bce example_lib)
                example_data optimizer we)
           = Inr (Scalar 1, Scalar 1, Scalar 1)"
    by auto
  with sgd example_run show ?thesis by auto
qed

text \<open>The histories of torch's loop have the same lengths.\<close>

lemma train_and_test_model_torch_histories:
  assumes "0 \<le> nb_epochs"
    and run: "train_and_test_model_torch L model criterion test_model_fn data nb_epochs lr w
                 = (Inr (lh, trh, teh), w')"
  shows "int (length lh) = nb_epochs \<and> int (length trh) = nb_epochs \<and> int (length teh) = nb_epochs"
proof -
  from run obtain optimizer w0 w1
    where loop: "for_loop [0..<nat nb_epochs]
                   (train_and_test_epoch_torch L model criterion test_model_fn data optimizer)
                   ([], [], []) w0 = (Inr (lh, teh, trh), w1)"
    unfolding train_and_test_model_torch_def range_int_def
    by (auto simp: and_then_set_grad_enabled and_then_print and_then_Inr return_Inr
        split: prod.splits)
  have "length lh = nat nb_epochs \<and> length teh = nat nb_epochs \<and> length trh = nat nb_epochs \<and>
        (\<forall>e<nat nb_epochs. \<exists>we.
            for_loop [0..<e] (train_and_test_epoch_torch L model criterion test_model_fn data optimizer)
              ([], [], []) w0 = (Inr (take e lh, take e teh, take e trh), we) \<and>
            fst (epoch_readings_torch L model criterion test_model_fn data optimizer we)
              = Inr (lh ! e, teh ! e, trh ! e))"
    by (rule loop_histories
        [where readings = "epoch_readings_torch L model criterion test_model_fn data optimizer", OF _ loop])
      (rule train_and_test_epoch_torch_appends)
  with assms show ?thesis by auto
qed

subsection \<open>The gradient switch\<close>







subsection \<open>The mode of the model after a test\<close>

text \<open>
  C8. For a model whose \<^verbatim>\<open>train()\<close> puts it in training mode: whenever
  \<open>test_model_bce\<close> or \<open>test_model_bceWithLogits\<close> returns, the model is in
  training mode, as it was before if it was in training mode; the function called
  \<^verbatim>\<open>model.eval()\<close> first, the model on the test input in the world that left, and
  \<^verbatim>\<open>model.train()\<close> last, whose world is the one returned.
\<close>

theorem test_model_leaves_training_mode:
  assumes train_sets: "\<forall>w u w'. train model w = (Inr u, w') \<longrightarrow> is_training model w'"
  shows "(\<forall>test_accuracy w'.
            test_model_bce L model test_input test_target w = (Inr test_accuracy, w') \<longrightarrow>
            is_training model w' \<and>
            (is_training model w \<longrightarrow> is_training model w' = is_training model w) \<and>
            (\<exists>w1 test_output w2.
               eval model w = (Inr (), w1) \<and> call model test_input w1 = (Inr test_output, w2) \<and>
               train model w2 = (Inr (), w')))
       \<and> (\<forall>test_accuracy w'.
            test_model_bceWithLogits L model test_input test_target w = (Inr test_accuracy, w') \<longrightarrow>
            is_training model w' \<and>
            (is_training model w \<longrightarrow> is_training model w' = is_training model w) \<and>
            (\<exists>w1 test_output w2 sigmoid w3 probabilities w4.
               eval model w = (Inr (), w1) \<and> call model test_input w1 = (Inr test_output, w2) \<and>
               Sigmoid L None w2 = (Inr sigmoid, w3) \<and>
               call sigmoid test_output w3 = (Inr probabilities, w4) \<and>
               train model w4 = (Inr (), w')))"
proof (intro conjI allI impI)
  fix test_accuracy w'
  assume run: "test_model_bce L model test_input test_target w = (Inr test_accuracy, w')"
  then have calls: "\<exists>w1 test_output w2.
               eval model w = (Inr (), w1) \<and> call model test_input w1 = (Inr test_output, w2) \<and>
               train model w2 = (Inr (), w')"
    unfolding test_model_bce_def
    by (auto simp: and_then_Inr return_Inr lift_def)
  with train_sets show "is_training model w'" by blast
  then show "is_training model w' = is_training model w" if "is_training model w"
    using that by simp
  from calls show "\<exists>w1 test_output w2.
               eval model w = (Inr (), w1) \<and> call model test_input w1 = (Inr test_output, w2) \<and>
               train model w2 = (Inr (), w')" .
next
  fix test_accuracy w'
  assume run: "test_model_bceWithLogits L model test_input test_target w = (Inr test_accuracy, w')"
  then have calls: "\<exists>w1 test_output w2 sigmoid w3 probabilities w4.
               eval model w = (Inr (), w1) \<and> call model test_input w1 = (Inr test_output, w2) \<and>
               Sigmoid L None w2 = (Inr sigmoid, w3) \<and>
               call sigmoid test_output w3 = (Inr probabilities, w4) \<and>
               train model w4 = (Inr (), w')"
    unfolding test_model_bceWithLogits_def
    by (auto simp: and_then_Inr return_Inr lift_def)
  with train_sets show "is_training model w'" by blast
  then show "is_training model w' = is_training model w" if "is_training model w"
    using that by simp
  from calls show "\<exists>w1 test_output w2 sigmoid w3 probabilities w4.
               eval model w = (Inr (), w1) \<and> call model test_input w1 = (Inr test_output, w2) \<and>
               Sigmoid L None w2 = (Inr sigmoid, w3) \<and>
               call sigmoid test_output w3 = (Inr probabilities, w4) \<and>
               train model w4 = (Inr (), w')" .
qed


lemma example_train_sets:
  "\<forall>w u w'. train example_model w = (Inr u, w') \<longrightarrow> is_training example_model w'"
  by (auto simp: example_model_def)

lemma example_test_model_bce:
  "test_model_bce example_lib example_model (Matrix 2 [[1, 0]]) (Matrix 1 [[1]]) example_world
     = (Inr (Scalar 1), example_world)"
  by (simp add: test_model_bce_def example_lib_def example_model_def example_world_def
      and_then_def return_def lift_def)

lemma example_test_model_bceWithLogits:
  "test_model_bceWithLogits example_lib example_model (Matrix 2 [[1, 0]]) (Matrix 1 [[1]])
     example_world = (Inr (Scalar 1), example_world)"
  by (simp add: test_model_bceWithLogits_def example_lib_def example_model_def example_world_def
      and_then_def return_def lift_def)

theorem test_model_leaves_training_mode_witness:
  "test_model_bce example_lib example_model (Matrix 2 [[1, 0]]) (Matrix 1 [[1]]) example_world
     = (Inr (Scalar 1), example_world)
   \<and> test_model_bceWithLogits example_lib example_model (Matrix 2 [[1, 0]]) (Matrix 1 [[1]])
     example_world = (Inr (Scalar 1), example_world)
   \<and> is_training example_model example_world
   \<and> (\<exists>w1 test_output.
        eval example_model example_world = (Inr (), w1) \<and> \<not> is_training example_model w1 \<and>
        call example_model (Matrix 2 [[1, 0]]) w1 = (Inr test_output, w1) \<and>
        train example_model w1 = (Inr (), example_world))"
proof -
  note both = test_model_leaves_training_mode
    [of example_model example_lib "Matrix 2 [[1, 0]]" "Matrix 1 [[1]]" example_world,
      OF example_train_sets]
  from both [THEN conjunct1, rule_format, OF example_test_model_bce]
  have "is_training example_model example_world" by (rule conjunct1)
  moreover from both [THEN conjunct2, rule_format, OF example_test_model_bceWithLogits]
  have "is_training example_model example_world" by (rule conjunct1)
  moreover have "\<exists>w1 test_output.
        eval example_model example_world = (Inr (), w1) \<and> \<not> is_training example_model w1 \<and>
        call example_model (Matrix 2 [[1, 0]]) w1 = (Inr test_output, w1) \<and>
        train example_model w1 = (Inr (), example_world)"
    by (simp add: example_model_def example_world_def return_def)
  ultimately show ?thesis
    using example_test_model_bce example_test_model_bceWithLogits by (intro conjI)
qed

subsection \<open>The tests that expect an assertion error\<close>

lemma expect_AssertionError:
  "try_except_AssertionError (and_then guarded (\<lambda>x. print uncorrect)) (\<lambda>error. print error) w =
     (case guarded w of
        (Inl (AssertionError msg), w') \<Rightarrow> (Inr (), w'\<lparr>stdout := stdout w' @ [msg]\<rparr>)
      | (Inl (IndexError msg), w') \<Rightarrow> (Inl (IndexError msg), w')
      | (Inl (OtherError msg), w') \<Rightarrow> (Inl (OtherError msg), w')
      | (Inr x, w') \<Rightarrow> (Inr (), w'\<lparr>stdout := stdout w' @ [uncorrect]\<rparr>))"
  by (simp add: try_except_AssertionError_def and_then_def print_def
      split: prod.splits sum.splits error.splits)


lemma multiple_unnamed_sigmoid_cases:
  "(let w1 = w\<lparr>stdout := stdout w @ [rule_line, ''Testing assertion error with multiple unnamed parameterless modules.'']\<rparr> in
       (\<forall>msg w2. two_unnamed_sigmoids L w1 = (Inl (AssertionError msg), w2) \<longrightarrow>
          test_assertion_error_with_multiple_unnamed_sigmoid L w = (Inr (), w2\<lparr>stdout := stdout w2 @ [msg]\<rparr>)) \<and>
       (\<forall>x w2. two_unnamed_sigmoids L w1 = (Inr x, w2) \<longrightarrow>
          test_assertion_error_with_multiple_unnamed_sigmoid L w = (Inr (), w2\<lparr>stdout := stdout w2 @ [uncorrect]\<rparr>)) \<and>
       (\<forall>e w2. two_unnamed_sigmoids L w1 = (Inl e, w2) \<and> (\<forall>msg. e \<noteq> AssertionError msg) \<longrightarrow>
          test_assertion_error_with_multiple_unnamed_sigmoid L w = (Inl e, w2)))"
  unfolding test_assertion_error_with_multiple_unnamed_sigmoid_def Let_def
  by (auto simp: and_then_print expect_AssertionError split: error.splits)

lemma calling_backward_first_cases:
  "(let w1 = w\<lparr>stdout := stdout w @ [rule_line, ''Testing assertion error when calling backward before any forward pass'']\<rparr> in
     \<forall>model w2. Linear L ''fc1'' 2 3 w1 = (Inr model, w2) \<longrightarrow>
       (\<forall>msg w3. backward model None w2 = (Inl (AssertionError msg), w3) \<longrightarrow>
          test_assertion_error_when_calling_backward_first L w = (Inr (), w3\<lparr>stdout := stdout w3 @ [msg]\<rparr>)) \<and>
       (\<forall>x w3. backward model None w2 = (Inr x, w3) \<longrightarrow>
          test_assertion_error_when_calling_backward_first L w = (Inr (), w3\<lparr>stdout := stdout w3 @ [uncorrect]\<rparr>)) \<and>
       (\<forall>e w3. backward model None w2 = (Inl e, w3) \<and> (\<forall>msg. e \<noteq> AssertionError msg) \<longrightarrow>
          test_assertion_error_when_calling_backward_first L w = (Inl e, w3)))"
  unfolding test_assertion_error_when_calling_backward_first_def Let_def
  by (auto simp: and_then_print and_then_step expect_AssertionError split: error.splits)

lemma without_sigmoid_before_BCELoss_cases:
  "(let w1 = w\<lparr>stdout := stdout w @ [rule_line, ''Testing assertion error when using BCELoss without final sigmoid layer.'']\<rparr> in
     \<forall>model w2 criterion w3 data w4.
       model_without_sigmoid L w1 = (Inr model, w2) \<and> BCELoss L w2 = (Inr criterion, w3) \<and>
       load_mock_test_data L w3 = (Inr data, w4) \<longrightarrow>
       (\<forall>msg w5. train_and_test_model L model criterion (test_model_bce L) data 301 (1 / 1000) w4 = (Inl (AssertionError msg), w5) \<longrightarrow>
          test_assertion_error_without_sigmoid_before_BCELoss L w = (Inr (), w5\<lparr>stdout := stdout w5 @ [msg]\<rparr>)) \<and>
       (\<forall>x w5. train_and_test_model L model criterion (test_model_bce L) data 301 (1 / 1000) w4 = (Inr x, w5) \<longrightarrow>
          test_assertion_error_without_sigmoid_before_BCELoss L w = (Inr (), w5\<lparr>stdout := stdout w5 @ [uncorrect]\<rparr>)) \<and>
       (\<forall>e w5. train_and_test_model L model criterion (test_model_bce L) data 301 (1 / 1000) w4 = (Inl e, w5) \<and> (\<forall>msg. e \<noteq> AssertionError msg) \<longrightarrow>
          test_assertion_error_without_sigmoid_before_BCELoss L w = (Inl e, w5)))"
  unfolding test_assertion_error_without_sigmoid_before_BCELoss_def Let_def
  by (auto simp: and_then_print and_then_step expect_AssertionError split: error.splits)

text \<open>
  C7. In each of the three tests, once what precedes the \<^verbatim>\<open>try\<close> has returned:
  if the guarded call raises an \<^verbatim>\<open>AssertionError\<close>, the test prints its message
  and returns; if the guarded call returns, the test prints
  \<^verbatim>\<open>Uncorrect behavior, error should have been thrown.\<close> and returns; and an
  exception of any other type leaves the test as it is.
\<close>

theorem negative_tests_catch_AssertionError:
  "(let w1 = w\<lparr>stdout := stdout w @ [rule_line, ''Testing assertion error with multiple unnamed parameterless modules.'']\<rparr> in
       (\<forall>msg w2. two_unnamed_sigmoids L w1 = (Inl (AssertionError msg), w2) \<longrightarrow>
          test_assertion_error_with_multiple_unnamed_sigmoid L w = (Inr (), w2\<lparr>stdout := stdout w2 @ [msg]\<rparr>)) \<and>
       (\<forall>x w2. two_unnamed_sigmoids L w1 = (Inr x, w2) \<longrightarrow>
          test_assertion_error_with_multiple_unnamed_sigmoid L w = (Inr (), w2\<lparr>stdout := stdout w2 @ [uncorrect]\<rparr>)) \<and>
       (\<forall>e w2. two_unnamed_sigmoids L w1 = (Inl e, w2) \<and> (\<forall>msg. e \<noteq> AssertionError msg) \<longrightarrow>
          test_assertion_error_with_multiple_unnamed_sigmoid L w = (Inl e, w2)))
   \<and> (let w1 = w\<lparr>stdout := stdout w @ [rule_line, ''Testing assertion error when calling backward before any forward pass'']\<rparr> in
     \<forall>model w2. Linear L ''fc1'' 2 3 w1 = (Inr model, w2) \<longrightarrow>
       (\<forall>msg w3. backward model None w2 = (Inl (AssertionError msg), w3) \<longrightarrow>
          test_assertion_error_when_calling_backward_first L w = (Inr (), w3\<lparr>stdout := stdout w3 @ [msg]\<rparr>)) \<and>
       (\<forall>x w3. backward model None w2 = (Inr x, w3) \<longrightarrow>
          test_assertion_error_when_calling_backward_first L w = (Inr (), w3\<lparr>stdout := stdout w3 @ [uncorrect]\<rparr>)) \<and>
       (\<forall>e w3. backward model None w2 = (Inl e, w3) \<and> (\<forall>msg. e \<noteq> AssertionError msg) \<longrightarrow>
          test_assertion_error_when_calling_backward_first L w = (Inl e, w3)))
   \<and> (let w1 = w\<lparr>stdout := stdout w @ [rule_line, ''Testing assertion error when using BCELoss without final sigmoid layer.'']\<rparr> in
     \<forall>model w2 criterion w3 data w4.
       model_without_sigmoid L w1 = (Inr model, w2) \<and> BCELoss L w2 = (Inr criterion, w3) \<and>
       load_mock_test_data L w3 = (Inr data, w4) \<longrightarrow>
       (\<forall>msg w5. train_and_test_model L model criterion (test_model_bce L) data 301 (1 / 1000) w4 = (Inl (AssertionError msg), w5) \<longrightarrow>
          test_assertion_error_without_sigmoid_before_BCELoss L w = (Inr (), w5\<lparr>stdout := stdout w5 @ [msg]\<rparr>)) \<and>
       (\<forall>x w5. train_and_test_model L model criterion (test_model_bce L) data 301 (1 / 1000) w4 = (Inr x, w5) \<longrightarrow>
          test_assertion_error_without_sigmoid_before_BCELoss L w = (Inr (), w5\<lparr>stdout := stdout w5 @ [uncorrect]\<rparr>)) \<and>
       (\<forall>e w5. train_and_test_model L model criterion (test_model_bce L) data 301 (1 / 1000) w4 = (Inl e, w5) \<and> (\<forall>msg. e \<noteq> AssertionError msg) \<longrightarrow>
          test_assertion_error_without_sigmoid_before_BCELoss L w = (Inl e, w5)))"
  by (intro conjI multiple_unnamed_sigmoid_cases calling_backward_first_cases
      without_sigmoid_before_BCELoss_cases)


lemma range_int_first: "0 < n \<Longrightarrow> range_int n = 0 # [1..<nat n]"
  by (simp add: range_int_def upt_conv_Cons)

theorem negative_tests_catch_AssertionError_witness:
  "test_assertion_error_with_multiple_unnamed_sigmoid refusing_lib example_world
     = (Inr (), example_world\<lparr>stdout := [rule_line, ''Testing assertion error with multiple unnamed parameterless modules.'', ''this model is refused'']\<rparr>)
   \<and> test_assertion_error_with_multiple_unnamed_sigmoid example_lib example_world
     = (Inr (), example_world\<lparr>stdout := [rule_line, ''Testing assertion error with multiple unnamed parameterless modules.'', uncorrect]\<rparr>)
   \<and> test_assertion_error_with_multiple_unnamed_sigmoid broken_lib example_world
     = (Inl (OtherError ''out of memory''), example_world\<lparr>stdout := [rule_line, ''Testing assertion error with multiple unnamed parameterless modules.'']\<rparr>)
   \<and> test_assertion_error_when_calling_backward_first refusing_lib example_world
     = (Inr (), example_world\<lparr>stdout := [rule_line, ''Testing assertion error when calling backward before any forward pass'', ''backward before forward'']\<rparr>)
   \<and> test_assertion_error_without_sigmoid_before_BCELoss strict_bce_lib example_world
     = (Inr (), example_world\<lparr>stdout := [rule_line, ''Testing assertion error when using BCELoss without final sigmoid layer.'', ''\<newline>Working with custom DL'',
          ''BCELoss needs a final Sigmoid'']\<rparr>)"
proof -
  note cases = negative_tests_catch_AssertionError [unfolded Let_def]
  let ?w1 = "example_world\<lparr>stdout := stdout example_world @ [rule_line, ''Testing assertion error with multiple unnamed parameterless modules.'']\<rparr>"
  let ?w2 = "example_world\<lparr>stdout := stdout example_world @ [rule_line, ''Testing assertion error when calling backward before any forward pass'']\<rparr>"
  let ?w3 = "example_world\<lparr>stdout := stdout example_world @ [rule_line, ''Testing assertion error when using BCELoss without final sigmoid layer.'']\<rparr>"
  have "two_unnamed_sigmoids refusing_lib ?w1 = (Inl (AssertionError ''this model is refused''), ?w1)"
    by (simp add: two_unnamed_sigmoids_def refusing_lib_def example_lib_def and_then_def
        return_def raise_def)
  from cases [of refusing_lib example_world, THEN conjunct1, THEN conjunct1, rule_format, OF this]
  have 1: "test_assertion_error_with_multiple_unnamed_sigmoid refusing_lib example_world
     = (Inr (), example_world\<lparr>stdout := [rule_line, ''Testing assertion error with multiple unnamed parameterless modules.'', ''this model is refused'']\<rparr>)"
    by (simp add: example_world_def)
  have "two_unnamed_sigmoids example_lib ?w1 = (Inr example_model, ?w1)"
    by (simp add: two_unnamed_sigmoids_def example_lib_def and_then_def return_def)
  from cases [of example_lib example_world, THEN conjunct1, THEN conjunct2, THEN conjunct1,
      rule_format, OF this]
  have 2: "test_assertion_error_with_multiple_unnamed_sigmoid example_lib example_world
     = (Inr (), example_world\<lparr>stdout := [rule_line, ''Testing assertion error with multiple unnamed parameterless modules.'', uncorrect]\<rparr>)"
    by (simp add: example_world_def)
  have "two_unnamed_sigmoids broken_lib ?w1 = (Inl (OtherError ''out of memory''), ?w1)
        \<and> (\<forall>msg. OtherError ''out of memory'' \<noteq> AssertionError msg)"
    by (simp add: two_unnamed_sigmoids_def broken_lib_def example_lib_def and_then_def
        return_def raise_def)
  from cases [of broken_lib example_world, THEN conjunct1, THEN conjunct2, THEN conjunct2,
      rule_format, OF this]
  have 3: "test_assertion_error_with_multiple_unnamed_sigmoid broken_lib example_world
     = (Inl (OtherError ''out of memory''), example_world\<lparr>stdout := [rule_line, ''Testing assertion error with multiple unnamed parameterless modules.'']\<rparr>)"
    by (simp add: example_world_def)
  let ?model = "example_model\<lparr>backward := (\<lambda>g. raise (AssertionError ''backward before forward''))\<rparr>"
  have built: "Linear refusing_lib ''fc1'' 2 3 ?w2 = (Inr ?model, ?w2)"
    by (simp add: refusing_lib_def example_lib_def return_def)
  have "backward ?model None ?w2 = (Inl (AssertionError ''backward before forward''), ?w2)"
    by (simp add: raise_def)
  from cases [of refusing_lib example_world, THEN conjunct2, THEN conjunct1, rule_format, OF built,
      THEN conjunct1, rule_format, OF this]
  have 4: "test_assertion_error_when_calling_backward_first refusing_lib example_world
     = (Inr (), example_world\<lparr>stdout := [rule_line, ''Testing assertion error when calling backward before any forward pass'', ''backward before forward'']\<rparr>)"
    by (simp add: example_world_def)
  let ?criterion = "example_criterion\<lparr>criterion_call :=
         (\<lambda>output target. raise (AssertionError ''BCELoss needs a final Sigmoid''))\<rparr>"
  have prepared: "model_without_sigmoid strict_bce_lib ?w3 = (Inr example_model, ?w3)
        \<and> BCELoss strict_bce_lib ?w3 = (Inr ?criterion, ?w3)
        \<and> load_mock_test_data strict_bce_lib ?w3 = (Inr example_data, ?w3)"
    by (simp add: model_without_sigmoid_def load_mock_test_data_def example_data_def
        strict_bce_lib_def example_lib_def and_then_def return_def lift_def)
  have "train_and_test_model strict_bce_lib example_model ?criterion
          (test_model_bce strict_bce_lib) example_data 301 (1 / 1000) ?w3
        = (Inl (AssertionError ''BCELoss needs a final Sigmoid''),
           ?w3\<lparr>stdout := stdout ?w3 @ [''\<newline>Working with custom DL'']\<rparr>)"
    by (simp add: train_and_test_model_def train_and_test_epoch_def range_int_first
        example_data_def strict_bce_lib_def example_lib_def example_model_def
        example_optimizer_def example_world_def
        and_then_def return_def raise_def set_grad_enabled_def print_def)
  from cases [of strict_bce_lib example_world, THEN conjunct2, THEN conjunct2, rule_format,
      OF prepared, THEN conjunct1, rule_format, OF this]
  have 5: "test_assertion_error_without_sigmoid_before_BCELoss strict_bce_lib example_world
     = (Inr (), example_world\<lparr>stdout := [rule_line, ''Testing assertion error when using BCELoss without final sigmoid layer.'', ''\<newline>Working with custom DL'',
          ''BCELoss needs a final Sigmoid'']\<rparr>)"
    by (simp add: example_world_def)
  from 1 2 3 4 5 show ?thesis by (intro conjI)
qed

subsection \<open>The framework as the specification describes it\<close>

lemma forward_in_eval_mode:
  "(\<forall>c\<in>set (modules_of m). \<not> training c) \<Longrightarrow> snd (Module_forward nm m x) = m"
  "(\<forall>c\<in>set (concat (map modules_of cs)). \<not> training c) \<Longrightarrow> snd (forward_children nm cs x) = cs"
proof (induction nm m x and nm cs x rule: Module_forward_forward_children.induct)
  case (1 nm n k t s cs x)
  then show ?case
    by (auto split: prod.splits sum.splits)
next
  case (2 nm x)
  then show ?case by simp
next
  case (3 nm c cs x)
  then show ?case
    by (auto split: prod.splits sum.splits)
qed

lemma modules_of_eval: "c \<in> set (modules_of (Module_eval m)) \<Longrightarrow> \<not> training c"
  by (induction m arbitrary: c) auto

lemma saved_eval:
  "map save_for_backward (modules_of (Module_eval m)) = map save_for_backward (modules_of m)"
  by (induction m) (simp add: map_concat comp_def cong: map_cong)

lemma saved_train:
  "map save_for_backward (modules_of (Module_train m)) = map save_for_backward (modules_of m)"
  by (induction m) (simp add: map_concat comp_def cong: map_cong)

lemma names_eval: "map name (modules_of (Module_eval m)) = map name (modules_of m)"
  by (induction m) (simp add: map_concat comp_def cong: map_cong)

text \<open>
  C2. A forward pass of a model in evaluation mode leaves the \<^verbatim>\<open>save_for_backward\<close>
  attribute of every module of the model as it was. In particular, for a model \<open>m\<close>
  that has completed a forward pass, a forward pass after \<^verbatim>\<open>eval()\<close> leaves every
  module's attribute as the first pass left it, also once \<^verbatim>\<open>train()\<close> has put the
  model back in training mode.
\<close>

theorem eval_forward_keeps_saved:
  "((\<forall>c\<in>set (modules_of m). \<not> training c) \<and> Module_forward nm m x = (r, m') \<longrightarrow>
      map save_for_backward (modules_of m') = map save_for_backward (modules_of m) \<and>
      map name (modules_of m') = map name (modules_of m))
   \<and> (Module_forward nm (Module_eval m) x = (r, m') \<longrightarrow>
      map save_for_backward (modules_of m') = map save_for_backward (modules_of m) \<and>
      map name (modules_of m') = map name (modules_of m) \<and>
      map save_for_backward (modules_of (Module_train m')) = map save_for_backward (modules_of m))"
proof (intro conjI impI)
  assume a: "(\<forall>c\<in>set (modules_of m). \<not> training c) \<and> Module_forward nm m x = (r, m')"
  with forward_in_eval_mode(1) [of m nm x] have "m' = m" by simp
  then show "map save_for_backward (modules_of m') = map save_for_backward (modules_of m)"
    and "map name (modules_of m') = map name (modules_of m)" by simp_all
next
  assume a: "Module_forward nm (Module_eval m) x = (r, m')"
  have "\<forall>c\<in>set (modules_of (Module_eval m)). \<not> training c"
    by (auto dest: modules_of_eval)
  with forward_in_eval_mode(1) [of "Module_eval m" nm x] a have m': "m' = Module_eval m" by simp
  then show "map save_for_backward (modules_of m') = map save_for_backward (modules_of m)"
    and "map name (modules_of m') = map name (modules_of m)"
    and "map save_for_backward (modules_of (Module_train m')) = map save_for_backward (modules_of m)"
    by (simp_all add: saved_eval saved_train names_eval)
qed

lemma tanh_model_first_pass:
  "Module_forward example_numerics tanh_model (Traced (Matrix 2 [[1, 2]]) None) =
     (Inr (Traced (Matrix 2 [[1, 2]]) (Some (Linear_layer 3 1))),
      Module None Sequential_container True (Some (Matrix 2 [[1, 2]]))
        [Module (Some ''fc1'') (Linear_layer 2 3) True (Some (Matrix 2 [[1, 2]])) [],
         Module None Tanh_layer True (Some (Matrix 2 [[1, 2]])) [],
         Module (Some ''fc2'') (Linear_layer 3 1) True (Some (Matrix 2 [[1, 2]])) []])"
  by (simp add: tanh_model_def new_Sequential_def new_Linear_def new_activation_def
      example_numerics_def)

lemma tanh_model_second_pass:
  "Module_forward example_numerics
     (Module_eval
        (Module None Sequential_container True (Some (Matrix 2 [[1, 2]]))
          [Module (Some ''fc1'') (Linear_layer 2 3) True (Some (Matrix 2 [[1, 2]])) [],
           Module None Tanh_layer True (Some (Matrix 2 [[1, 2]])) [],
           Module (Some ''fc2'') (Linear_layer 3 1) True (Some (Matrix 2 [[1, 2]])) []]))
     (Traced (Matrix 2 [[3, 4]]) None) =
     (Inr (Traced (Matrix 2 [[3, 4]]) (Some (Linear_layer 3 1))),
      Module None Sequential_container False (Some (Matrix 2 [[1, 2]]))
        [Module (Some ''fc1'') (Linear_layer 2 3) False (Some (Matrix 2 [[1, 2]])) [],
         Module None Tanh_layer False (Some (Matrix 2 [[1, 2]])) [],
         Module (Some ''fc2'') (Linear_layer 3 1) False (Some (Matrix 2 [[1, 2]])) []])"
  by (simp add: example_numerics_def)

theorem eval_forward_keeps_saved_witness:
  "Module_forward example_numerics tanh_model (Traced (Matrix 2 [[1, 2]]) None) =
     (Inr (Traced (Matrix 2 [[1, 2]]) (Some (Linear_layer 3 1))),
      Module None Sequential_container True (Some (Matrix 2 [[1, 2]]))
        [Module (Some ''fc1'') (Linear_layer 2 3) True (Some (Matrix 2 [[1, 2]])) [],
         Module None Tanh_layer True (Some (Matrix 2 [[1, 2]])) [],
         Module (Some ''fc2'') (Linear_layer 3 1) True (Some (Matrix 2 [[1, 2]])) []])
   \<and> map save_for_backward (modules_of (snd (Module_forward example_numerics
         (Module_eval
            (Module None Sequential_container True (Some (Matrix 2 [[1, 2]]))
              [Module (Some ''fc1'') (Linear_layer 2 3) True (Some (Matrix 2 [[1, 2]])) [],
               Module None Tanh_layer True (Some (Matrix 2 [[1, 2]])) [],
               Module (Some ''fc2'') (Linear_layer 3 1) True (Some (Matrix 2 [[1, 2]])) []]))
         (Traced (Matrix 2 [[3, 4]]) None))))
     = [Some (Matrix 2 [[1, 2]]), Some (Matrix 2 [[1, 2]]), Some (Matrix 2 [[1, 2]]),
        Some (Matrix 2 [[1, 2]])]"
proof -
  from eval_forward_keeps_saved [THEN conjunct2, rule_format, OF tanh_model_second_pass]
  have "map save_for_backward (modules_of
          (Module None Sequential_container False (Some (Matrix 2 [[1, 2]]))
            [Module (Some ''fc1'') (Linear_layer 2 3) False (Some (Matrix 2 [[1, 2]])) [],
             Module None Tanh_layer False (Some (Matrix 2 [[1, 2]])) [],
             Module (Some ''fc2'') (Linear_layer 3 1) False (Some (Matrix 2 [[1, 2]])) []]))
        = [Some (Matrix 2 [[1, 2]]), Some (Matrix 2 [[1, 2]]), Some (Matrix 2 [[1, 2]]),
           Some (Matrix 2 [[1, 2]])]"
    by simp
  with tanh_model_first_pass tanh_model_second_pass show ?thesis by simp
qed

lemma saved_eval_top: "save_for_backward (Module_eval m) = save_for_backward m"
  by (cases m) simp

lemma saved_train_top: "save_for_backward (Module_train m) = save_for_backward m"
  by (cases m) simp

lemma never_forwarded_saved: "never_forwarded m \<Longrightarrow> save_for_backward m = None"
  by (induction rule: never_forwarded.induct)
    (simp_all add: new_Linear_def new_activation_def new_Sequential_def saved_eval_top
      saved_train_top)

text \<open>
  C4. \<^verbatim>\<open>backward\<close> on a model on which no forward pass has run raises an
  \<^verbatim>\<open>AssertionError\<close> and changes nothing; in particular
  \<^verbatim>\<open>Linear('fc1', 2, 3).backward(None)\<close> does.
\<close>

theorem backward_before_forward:
  "(never_forwarded m \<longrightarrow>
      Module_backward nm m grad_output = (Inl (AssertionError (backward_message nm)), m))
   \<and> Module_backward nm (new_Linear ''fc1'' 2 3) None
       = (Inl (AssertionError (backward_message nm)), new_Linear ''fc1'' 2 3)"
  by (simp add: Module_backward_def never_forwarded_saved never_forwarded.Linear)

theorem backward_before_forward_witness:
  "Module_backward example_numerics (Module_eval (new_Sequential [new_Linear ''fc1'' 2 3])) None
     = (Inl (AssertionError ''backward called before forward''),
        Module_eval (new_Sequential [new_Linear ''fc1'' 2 3]))"
proof -
  have "never_forwarded (Module_eval (new_Sequential [new_Linear ''fc1'' 2 3 :: int tensor Module]))"
    by (intro never_forwarded.intros)
  from backward_before_forward [THEN conjunct1, rule_format, OF this, of example_numerics None]
  show ?thesis by (simp add: example_numerics_def)
qed

lemma kind_after_append: "kind_after p (xs @ ys) = kind_after (kind_after p xs) ys"
  by (cases xs; cases ys) (simp_all add: kind_after_def)

lemma forward_produced_by:
  "Module_forward nm m x = (Inr y, m') \<Longrightarrow> produced_by y = kind_after (produced_by x) (layers_of m)"
  "forward_children nm cs x = (Inr y, cs') \<Longrightarrow>
     produced_by y = kind_after (produced_by x) (concat (map layers_of cs))"
proof (induction nm m x and nm cs x arbitrary: y m' and y cs' rule: Module_forward_forward_children.induct)
  case (1 nm n k t s cs x)
  then show ?case
    by (auto simp: kind_after_def split: prod.splits sum.splits if_splits)
next
  case (2 nm x)
  then show ?case by (simp add: kind_after_def)
next
  case (3 nm c cs x)
  from "3.prems" obtain z c' cs1 where c: "Module_forward nm c x = (Inr z, c')"
    and cs: "forward_children nm cs z = (Inr y, cs1)"
    by (auto split: prod.splits sum.splits)
  from "3.IH"(1) [OF c] "3.IH"(2) [OF c [symmetric] _ cs]
  show ?case
    by (simp add: kind_after_append)
qed

lemma kind_after_not_sigmoid:
  "p \<noteq> Some Sigmoid_layer \<Longrightarrow> kind_after None ls \<noteq> Some Sigmoid_layer \<Longrightarrow>
     kind_after p ls \<noteq> Some Sigmoid_layer"
  by (cases ls) (simp_all add: kind_after_def)

lemma BCELoss_without_sigmoid:
  assumes "Module_forward nm m x = (Inr output, m')"
    and "final_kind m \<noteq> Some Sigmoid_layer" and "produced_by x \<noteq> Some Sigmoid_layer"
  shows "BCELoss_call nm output target = Inl (AssertionError (bce_message nm))"
  using assms forward_produced_by(1) [OF assms(1)]
  by (simp add: BCELoss_call_def final_kind_def kind_after_not_sigmoid)


lemma for_loop_first_fails:
  "body i s w = (Inl e, w') \<Longrightarrow> for_loop (i # is) body s w = (Inl e, w')"
  by (simp add: and_then_fail)

lemma train_and_test_model_BCELoss:
  assumes "0 < nb_epochs"
    and sgd: "SGD L (Module_object nm) lr
           (w\<lparr>grad_enabled := False, stdout := stdout w @ [''\<newline>Working with custom DL'']\<rparr>)
         = (Inr optimizer, w1)"
    and zero: "zero_grad optimizer w1 = (Inr (), w2)"
    and forward: "Module_forward nm (heap w2) input = (Inr output, m')"
    and final: "final_kind (heap w2) \<noteq> Some Sigmoid_layer"
    and data: "produced_by input \<noteq> Some Sigmoid_layer"
  shows "train_and_test_model L (Module_object nm) (BCELoss_object nm back) test_model_fn
           (input, target, test_input, test_target) nb_epochs lr w
         = (Inl (AssertionError (bce_message nm)), w2\<lparr>heap := m'\<rparr>)"
proof -
  have loss: "BCELoss_call nm output target = Inl (AssertionError (bce_message nm))"
    using forward final data by (rule BCELoss_without_sigmoid)
  have call: "call (Module_object nm) input w2 = (Inr output, w2\<lparr>heap := m'\<rparr>)"
    by (simp add: Module_object_def forward)
  have "train_and_test_epoch L (Module_object nm) (BCELoss_object nm back) test_model_fn
          (input, target, test_input, test_target) optimizer 0 ([], [], []) w1
        = (Inl (AssertionError (bce_message nm)), w2\<lparr>heap := m'\<rparr>)"
    by (simp add: train_and_test_epoch_def
        and_then_step [of "zero_grad optimizer" w1 "()" w2, OF zero]
        and_then_step [of "call (Module_object nm) input" w2 "output" "w2\<lparr>heap := m'\<rparr>", OF call]
        BCELoss_object_def loss and_then_lift_Inl raise_def)
  then have "for_loop (range_int nb_epochs)
               (train_and_test_epoch L (Module_object nm) (BCELoss_object nm back) test_model_fn
                  (input, target, test_input, test_target) optimizer) ([], [], []) w1
             = (Inl (AssertionError (bce_message nm)), w2\<lparr>heap := m'\<rparr>)"
    using \<open>0 < nb_epochs\<close> by (simp only: range_int_first for_loop_first_fails)
  then show ?thesis
    by (simp add: train_and_test_model_def and_then_set_grad_enabled and_then_print
        and_then_step [of "SGD L (Module_object nm) lr" _ optimizer w1, OF sgd] and_then_fail)
qed

text \<open>
  C5. \<^verbatim>\<open>BCELoss\<close> applied to the output of a model whose final layer is not a sigmoid
  (on an input that is not itself the output of a sigmoid) raises an
  \<^verbatim>\<open>AssertionError\<close>. So \<open>train_and_test_model\<close> with \<^verbatim>\<open>BCELoss\<close> on such a
  model, for at least one epoch, raises it in the first epoch, once the optimizer is
  built, \<^verbatim>\<open>zero_grad()\<close> has returned and the forward pass has returned an output;
  the model of lines 256 to 259 is such a model, its final layer being
  \<^verbatim>\<open>Linear('fc3', 4, 1)\<close>.
\<close>

theorem BCELoss_needs_final_Sigmoid:
  "(Module_forward nm m x = (Inr output, m') \<and> final_kind m \<noteq> Some Sigmoid_layer \<and>
      produced_by x \<noteq> Some Sigmoid_layer \<longrightarrow>
      BCELoss_call nm output target = Inl (AssertionError (bce_message nm)))
   \<and> (0 < nb_epochs \<and>
      SGD L (Module_object nm) lr
         (w\<lparr>grad_enabled := False, stdout := stdout w @ [''\<newline>Working with custom DL'']\<rparr>)
        = (Inr optimizer, w1) \<and>
      zero_grad optimizer w1 = (Inr (), w2) \<and>
      Module_forward nm (heap w2) input = (Inr output, m') \<and>
      final_kind (heap w2) \<noteq> Some Sigmoid_layer \<and> produced_by input \<noteq> Some Sigmoid_layer \<longrightarrow>
      train_and_test_model L (Module_object nm) (BCELoss_object nm back) test_model_fn
           (input, target, test_input, test_target) nb_epochs lr w
         = (Inl (AssertionError (bce_message nm)), w2\<lparr>heap := m'\<rparr>))
   \<and> final_kind model_without_sigmoid_built = Some (Linear_layer 4 1)"
proof -
  have "final_kind model_without_sigmoid_built = Some (Linear_layer 4 1)"
    by (simp add: final_kind_def kind_after_def model_without_sigmoid_built_def new_Sequential_def
        new_Linear_def new_activation_def)
  then show ?thesis
    by (auto intro: BCELoss_without_sigmoid train_and_test_model_BCELoss)
qed

lemma model_without_sigmoid_pass:
  "Module_forward example_numerics model_without_sigmoid_built (Traced (Matrix 2 [[0, 0], [1, 1]]) None) =
     (Inr (Traced (Matrix 2 [[0, 0], [1, 1]]) (Some (Linear_layer 4 1))),
      Module None Sequential_container True (Some (Matrix 2 [[0, 0], [1, 1]]))
        [Module (Some ''fc1'') (Linear_layer 2 6) True (Some (Matrix 2 [[0, 0], [1, 1]])) [],
         Module None ReLU_layer True (Some (Matrix 2 [[0, 0], [1, 1]])) [],
         Module (Some ''fc2'') (Linear_layer 6 4) True (Some (Matrix 2 [[0, 0], [1, 1]])) [],
         Module None Tanh_layer True (Some (Matrix 2 [[0, 0], [1, 1]])) [],
         Module (Some ''fc3'') (Linear_layer 4 1) True (Some (Matrix 2 [[0, 0], [1, 1]])) []])"
  by (simp add: model_without_sigmoid_built_def new_Sequential_def new_Linear_def
      new_activation_def example_numerics_def)

theorem BCELoss_needs_final_Sigmoid_witness:
  "train_and_test_model framework_lib (Module_object example_numerics)
       (BCELoss_object example_numerics (return (Traced (Vector [0]) None)))
       (test_model_bce framework_lib)
       (Traced (Matrix 2 [[0, 0], [1, 1]]) None, Traced (Matrix 1 [[0], [1]]) None,
        Traced (Matrix 2 [[1, 0]]) None, Traced (Matrix 1 [[1]]) None)
       301 (1 / 1000)
       \<lparr>heap = model_without_sigmoid_built, grad_enabled = False, stdout = []\<rparr>
     = (Inl (AssertionError ''BCELoss expects the output of a Sigmoid''),
        \<lparr>heap = Module None Sequential_container True (Some (Matrix 2 [[0, 0], [1, 1]]))
           [Module (Some ''fc1'') (Linear_layer 2 6) True (Some (Matrix 2 [[0, 0], [1, 1]])) [],
            Module None ReLU_layer True (Some (Matrix 2 [[0, 0], [1, 1]])) [],
            Module (Some ''fc2'') (Linear_layer 6 4) True (Some (Matrix 2 [[0, 0], [1, 1]])) [],
            Module None Tanh_layer True (Some (Matrix 2 [[0, 0], [1, 1]])) [],
            Module (Some ''fc3'') (Linear_layer 4 1) True (Some (Matrix 2 [[0, 0], [1, 1]])) []],
         grad_enabled = False, stdout = [''\<newline>Working with custom DL'']\<rparr>)"
proof -
  let ?w = "\<lparr>heap = model_without_sigmoid_built, grad_enabled = False, stdout = []\<rparr>"
  let ?w1 = "\<lparr>heap = model_without_sigmoid_built, grad_enabled = False,
               stdout = [''\<newline>Working with custom DL'']\<rparr>"
  let ?optimizer = "\<lparr>zero_grad = return (), step = (\<lambda>loss. return ())\<rparr>
                      :: (int tensor traced, int tensor Module) optimizer"
  have "(0::int) < 301 \<and>
        SGD framework_lib (Module_object example_numerics) (1 / 1000)
          (?w\<lparr>grad_enabled := False, stdout := stdout ?w @ [''\<newline>Working with custom DL'']\<rparr>)
          = (Inr ?optimizer, ?w1) \<and>
        zero_grad ?optimizer ?w1 = (Inr (), ?w1) \<and>
        Module_forward example_numerics (heap ?w1) (Traced (Matrix 2 [[0, 0], [1, 1]]) None)
          = (Inr (Traced (Matrix 2 [[0, 0], [1, 1]]) (Some (Linear_layer 4 1))),
      Module None Sequential_container True (Some (Matrix 2 [[0, 0], [1, 1]]))
        [Module (Some ''fc1'') (Linear_layer 2 6) True (Some (Matrix 2 [[0, 0], [1, 1]])) [],
         Module None ReLU_layer True (Some (Matrix 2 [[0, 0], [1, 1]])) [],
         Module (Some ''fc2'') (Linear_layer 6 4) True (Some (Matrix 2 [[0, 0], [1, 1]])) [],
         Module None Tanh_layer True (Some (Matrix 2 [[0, 0], [1, 1]])) [],
         Module (Some ''fc3'') (Linear_layer 4 1) True (Some (Matrix 2 [[0, 0], [1, 1]])) []]) \<and>
        final_kind (heap ?w1) \<noteq> Some Sigmoid_layer \<and>
        produced_by (Traced (Matrix 2 [[0, 0], [1, 1]]) None :: int tensor traced) \<noteq> Some Sigmoid_layer"
    by (simp add: framework_lib_def return_def model_without_sigmoid_pass)
      (simp add: final_kind_def kind_after_def model_without_sigmoid_built_def new_Sequential_def
        new_Linear_def new_activation_def)
  from BCELoss_needs_final_Sigmoid [THEN conjunct2, THEN conjunct1, rule_format, OF this]
  show ?thesis by (simp add: example_numerics_def)
qed

end
